theory Spec2Isabelle
  imports Main
begin

section \<open>The browser client: data model\<close>

text \<open>
  The client is \<^verbatim>\<open>frontend/src/stores/authStore.ts\<close> (the session store) and the
  HTTP client module that follows it in the same source file (the axios instance
  \<^verbatim>\<open>api\<close>, its two interceptors and \<^verbatim>\<open>authApi\<close>).

  A request configuration carries what the interceptors read and write: the
  \<^verbatim>\<open>Authorization\<close> header and the one-shot \<^verbatim>\<open>_retry\<close> mark. URL, method and
  payload travel unchanged.
\<close>

datatype http_method = GET | POST | PUT | DELETE

record request_config =
  url :: string
  verb :: http_method
  payload :: string
  authorization :: "string option"
  retry :: bool

record user_summary =
  uid :: nat
  email :: string

text \<open>
  A response body is \<^verbatim>\<open>null\<close>/\<^verbatim>\<open>undefined\<close> (\<open>Null\<close>: destructuring it or reading
  a property of it throws a TypeError) or an object whose \<^verbatim>\<open>access_token\<close> and
  \<^verbatim>\<open>user\<close> properties may be absent (\<open>None\<close> is \<^verbatim>\<open>undefined\<close>).
\<close>

datatype body = Null | Obj (access_token: "string option") (body_user: "user_summary option")

record response =
  status :: nat
  data :: body

text \<open>
  A thrown value, as far as the code inspects it: \<^verbatim>\<open>instanceof AxiosError\<close>,
  \<^verbatim>\<open>instanceof Error\<close>, \<^verbatim>\<open>code\<close>, \<^verbatim>\<open>response\<close> (absent when no response was
  received), \<^verbatim>\<open>message\<close> and \<^verbatim>\<open>config\<close> (the request that failed).
\<close>

record js_error =
  is_axios :: bool
  is_error :: bool
  code :: "string option"
  err_response :: "response option"
  message :: string
  config :: "request_config option"

text \<open>\<^verbatim>\<open>error.response?.status\<close>: absent when there is no response.\<close>

definition response_status :: "js_error \<Rightarrow> nat option" where
  "response_status error = map_option status (err_response error)"

text \<open>The data fields of \<^verbatim>\<open>AuthState\<close>.\<close>

record session =
  user :: "user_summary option"
  accessToken :: "string option"
  isAuthenticated :: bool
  isLoading :: bool

datatype level = Error | Warn

text \<open>
  \<^verbatim>\<open>useAuthStore.getState().logout()\<close> in the interceptor is called without
  \<^verbatim>\<open>await\<close>: the call is started and the handler goes on. A started, unfinished
  call is a \<open>task\<close> in \<open>background\<close>.
\<close>

datatype task = LogoutCall

record js_state =
  store :: session
  isRefreshing :: bool
  console :: "(level \<times> string) list"
  background :: "task list"

type_synonym outcome = "js_error + response"

text \<open>
  The network, as seen from axios: given its own state and the request, a settled
  promise (rejected with an error or fulfilled with a response) and its next state.
  \<open>sent\<close> records every request handed to it, in order.
\<close>

type_synonym 'w adapter = "'w \<Rightarrow> request_config \<Rightarrow> outcome \<times> 'w"

record 'w machine =
  js :: js_state
  world :: 'w
  sent :: "request_config list"

definition initial_session :: session where
  "initial_session = \<lparr>user = None, accessToken = None, isAuthenticated = False, isLoading = True\<rparr>"

definition type_error :: js_error where
  "type_error = \<lparr>is_axios = False, is_error = True, code = None, err_response = None,
     message = ''TypeError'', config = None\<rparr>"

text \<open>A template literal \<^verbatim>\<open>${v}\<close> prints an absent value as \<^verbatim>\<open>undefined\<close>.\<close>

definition template :: "string option \<Rightarrow> string" where
  "template v = (case v of None \<Rightarrow> ''undefined'' | Some t \<Rightarrow> t)"

text \<open>The header value \<^verbatim>\<open>`Bearer ${t}`\<close>.\<close>

definition bearer :: "string \<Rightarrow> string" where
  "bearer t = ''Bearer '' @ t"

definition set_state :: "(session \<Rightarrow> session) \<Rightarrow> js_state \<Rightarrow> js_state" where
  "set_state f st = st\<lparr>store := f (store st)\<rparr>"

definition log_console :: "level \<Rightarrow> string \<Rightarrow> js_state \<Rightarrow> js_state" where
  "log_console l txt st = st\<lparr>console := console st @ [(l, txt)]\<rparr>"

definition cleared :: "session \<Rightarrow> session" where
  "cleared s = s\<lparr>user := None, accessToken := None, isAuthenticated := False\<rparr>"

section \<open>The HTTP client and its interceptors\<close>

text \<open>The request interceptor: a truthy access token is stamped on the request.\<close>

definition request_interceptor :: "session \<Rightarrow> request_config \<Rightarrow> request_config" where
  "request_interceptor s cfg =
     (case accessToken s of
        None \<Rightarrow> cfg
      | Some t \<Rightarrow> if t \<noteq> [] then cfg\<lparr>authorization := Some (bearer t)\<rparr> else cfg)"

definition refresh_request :: request_config where
  "refresh_request = \<lparr>url = ''/auth/refresh'', verb = POST, payload = [],
     authorization = None, retry = False\<rparr>"

definition logout_request :: request_config where
  "logout_request = \<lparr>url = ''/auth/logout'', verb = POST, payload = [],
     authorization = None, retry = False\<rparr>"

text \<open>
  The response interceptor's error handler is an async function with one
  \<^verbatim>\<open>await\<close>. It is modelled by its three synchronous segments.

  \<open>handle_rejected\<close>: from entry to the \<^verbatim>\<open>await api.post('/auth/refresh')\<close>, or to
  the final \<^verbatim>\<open>Promise.reject(error)\<close>. A 401 whose error has no \<^verbatim>\<open>config\<close> makes
  \<^verbatim>\<open>originalRequest._retry\<close> throw, which rejects the handler's promise.
\<close>

datatype entered = Reject js_error js_state | Refresh request_config js_state

definition handle_rejected :: "js_state \<Rightarrow> js_error \<Rightarrow> entered" where
  "handle_rejected st error =
     (if response_status error = Some 401 then
        (case config error of
           None \<Rightarrow> Reject type_error st
         | Some originalRequest \<Rightarrow>
             if \<not> retry originalRequest then
               (let originalRequest' = originalRequest\<lparr>retry := True\<rparr>;
                    error' = error\<lparr>config := Some originalRequest'\<rparr>
                in if \<not> isRefreshing st
                   then Refresh originalRequest' (st\<lparr>isRefreshing := True\<rparr>)
                   else Reject error' st)
             else Reject error st)
      else Reject error st)"

text \<open>
  \<open>refresh_resolved\<close>: the rest of the \<^verbatim>\<open>try\<close> block once the refresh call is
  fulfilled, up to \<^verbatim>\<open>return api(originalRequest)\<close>. Destructuring a \<^verbatim>\<open>null\<close> body
  throws, which the \<^verbatim>\<open>catch\<close> block receives.
\<close>

datatype resumed = Retry request_config js_state | Threw js_error js_state

definition refresh_resolved :: "js_state \<Rightarrow> request_config \<Rightarrow> response \<Rightarrow> resumed" where
  "refresh_resolved st originalRequest refreshResponse =
     (case data refreshResponse of
        Null \<Rightarrow> Threw type_error st
      | Obj tok u \<Rightarrow>
          (let st1 = st\<lparr>store := (store st)\<lparr>accessToken := tok\<rparr>\<rparr>;
               st2 = st1\<lparr>isRefreshing := False\<rparr>
           in Retry (originalRequest\<lparr>authorization := Some (bearer (template tok))\<rparr>) st2))"

text \<open>
  \<open>refresh_caught\<close>: the \<^verbatim>\<open>catch\<close> block, which ends in \<^verbatim>\<open>Promise.reject(err)\<close>
  with the error it caught.
\<close>

definition refresh_caught :: "js_state \<Rightarrow> js_error \<Rightarrow> js_state" where
  "refresh_caught st err =
     (let st1 = st\<lparr>isRefreshing := False\<rparr>
      in if is_axios err \<and> (code err = Some ''ERR_NETWORK'' \<or> err_response err = None)
         then set_state cleared st1
         else st1\<lparr>background := background st1 @ [LogoutCall]\<rparr>)"

text \<open>
  \<open>api A m cfg\<close> is one call \<^verbatim>\<open>api(cfg)\<close> run to its settled promise, with nothing else
  scheduled in between: request interceptor, network, response interceptor. axios
  rejects with an error whose \<^verbatim>\<open>config\<close> is the request it sent. The refresh call
  and the retry go through the same instance, hence through the same interceptors.
  The promise returned by \<^verbatim>\<open>return api(originalRequest)\<close> is not awaited inside the
  \<^verbatim>\<open>try\<close>, so its rejection does not reach the \<^verbatim>\<open>catch\<close> block.
\<close>

function api :: "'w adapter \<Rightarrow> 'w machine \<Rightarrow> request_config \<Rightarrow> outcome \<times> 'w machine" where
  "api A m cfg =
     (let cfg1 = request_interceptor (store (js m)) cfg;
          (out, w) = A (world m) cfg1;
          m1 = m\<lparr>world := w, sent := sent m @ [cfg1]\<rparr>
      in case out of
           Inr resp \<Rightarrow> (Inr resp, m1)
         | Inl e \<Rightarrow>
            (case handle_rejected (js m1) (e\<lparr>config := Some cfg1\<rparr>) of
               Reject error st \<Rightarrow> (Inl error, m1\<lparr>js := st\<rparr>)
             | Refresh originalRequest st \<Rightarrow>
                (case api A (m1\<lparr>js := st\<rparr>) refresh_request of
                   (Inr refreshResponse, m2) \<Rightarrow>
                     (case refresh_resolved (js m2) originalRequest refreshResponse of
                        Retry originalRequest' st' \<Rightarrow> api A (m2\<lparr>js := st'\<rparr>) originalRequest'
                      | Threw err st' \<Rightarrow> (Inl err, m2\<lparr>js := refresh_caught st' err\<rparr>))
                 | (Inl err, m2) \<Rightarrow> (Inl err, m2\<lparr>js := refresh_caught (js m2) err\<rparr>))))"
  by pat_completeness auto
termination
  apply (relation "measure (\<lambda>(A, m, cfg). if isRefreshing (js m) \<or> retry cfg then 0 else 1)")
    apply simp
   apply (auto simp: handle_rejected_def request_interceptor_def Let_def
      split: option.splits if_splits)[1]
  apply (auto simp: handle_rejected_def refresh_resolved_def request_interceptor_def Let_def
      split: option.splits if_splits body.splits)
  done

declare api.simps [simp del]

section \<open>The session store\<close>

text \<open>\<^verbatim>\<open>authApi.refresh\<close>: the body of the refresh response.\<close>

definition authApi_refresh :: "'w adapter \<Rightarrow> 'w machine \<Rightarrow> (js_error + body) \<times> 'w machine" where
  "authApi_refresh A m =
     (case api A m refresh_request of
        (Inr resp, m1) \<Rightarrow> (Inr (data resp), m1)
      | (Inl err, m1) \<Rightarrow> (Inl err, m1))"

definition isExpectedError :: "js_error \<Rightarrow> bool" where
  "isExpectedError err \<longleftrightarrow>
     (is_axios err \<and> response_status err = Some 401) \<or>
     (is_axios err \<and> code err = Some ''ERR_NETWORK'') \<or>
     (is_error err \<and> message err = ''Network Error'')"

definition initAuth_catch :: "js_error \<Rightarrow> js_state \<Rightarrow> js_state" where
  "initAuth_catch err st =
     (let st1 = (if \<not> isExpectedError err then log_console Error ''initAuth error:'' st else st)
      in set_state (\<lambda>s. s\<lparr>user := None, accessToken := None, isAuthenticated := False,
                          isLoading := False\<rparr>) st1)"

definition initAuth :: "'w adapter \<Rightarrow> 'w machine \<Rightarrow> 'w machine" where
  "initAuth A m =
     (case authApi_refresh A m of
        (Inr (Obj tok u), m1) \<Rightarrow>
          m1\<lparr>js := set_state (\<lambda>s. s\<lparr>user := u, accessToken := tok, isAuthenticated := True,
                                     isLoading := False\<rparr>) (js m1)\<rparr>
      | (Inr Null, m1) \<Rightarrow> m1\<lparr>js := initAuth_catch type_error (js m1)\<rparr>
      | (Inl err, m1) \<Rightarrow> m1\<lparr>js := initAuth_catch err (js m1)\<rparr>)"

text \<open>\<^verbatim>\<open>logout\<close>: the server call, a warning when it fails, and the \<^verbatim>\<open>finally\<close> block.\<close>

definition logout_settled :: "outcome \<Rightarrow> js_state \<Rightarrow> js_state" where
  "logout_settled out st =
     (let st1 = (case out of
                   Inr resp \<Rightarrow> st
                 | Inl err \<Rightarrow>
                     log_console Warn ''Logout API call failed, clearing local state anyway:'' st)
      in set_state cleared st1)"

definition logout :: "'w adapter \<Rightarrow> 'w machine \<Rightarrow> 'w machine" where
  "logout A m = (case api A m logout_request of (out, m1) \<Rightarrow> m1\<lparr>js := logout_settled out (js m1)\<rparr>)"

text \<open>
  Running the oldest started background call to its end. (A server that answers the
  logout request itself with 401 and refuses the refresh makes every such call start
  another one; the server of this repository never answers logout with 401.)
\<close>

definition run_next :: "'w adapter \<Rightarrow> 'w machine \<Rightarrow> 'w machine" where
  "run_next A m =
     (case background (js m) of
        [] \<Rightarrow> m
      | LogoutCall # ts \<Rightarrow> logout A (m\<lparr>js := (js m)\<lparr>background := ts\<rparr>\<rparr>))"

text \<open>The requests that one call \<^verbatim>\<open>api(cfg)\<close> hands to the network, in order.\<close>

definition requests_sent :: "'w adapter \<Rightarrow> 'w machine \<Rightarrow> request_config \<Rightarrow> request_config list" where
  "requests_sent A m cfg = drop (length (sent m)) (sent (snd (api A m cfg)))"

section \<open>Example servers and sessions\<close>

text \<open>
  axios rejects a non-2xx response with an \<^verbatim>\<open>AxiosError\<close> that carries the response,
  and an unreachable server with one that has code \<^verbatim>\<open>ERR_NETWORK\<close> and no response.
\<close>

definition unauthorized :: js_error where
  "unauthorized = \<lparr>is_axios = True, is_error = True, code = Some ''ERR_BAD_REQUEST'',
     err_response = Some \<lparr>status = 401, data = Null\<rparr>,
     message = ''Request failed with status code 401'', config = None\<rparr>"

definition server_error :: js_error where
  "server_error = \<lparr>is_axios = True, is_error = True, code = Some ''ERR_BAD_RESPONSE'',
     err_response = Some \<lparr>status = 500, data = Null\<rparr>,
     message = ''Request failed with status code 500'', config = None\<rparr>"

definition network_error :: js_error where
  "network_error = \<lparr>is_axios = True, is_error = True, code = Some ''ERR_NETWORK'',
     err_response = None, message = ''Network Error'', config = None\<rparr>"

definition ok :: "body \<Rightarrow> response" where
  "ok b = \<lparr>status = 200, data = b\<rparr>"

definition alice :: user_summary where
  "alice = \<lparr>uid = 1, email = ''a@b.com''\<rparr>"

text \<open>
  A server whose refresh cookie is valid: it mints the token \<^verbatim>\<open>t2\<close> and accepts no
  other bearer token.
\<close>

definition valid_cookie_server :: "unit adapter" where
  "valid_cookie_server w cfg =
     (if url cfg = ''/auth/refresh'' then (Inr (ok (Obj (Some ''t2'') (Some alice))), w)
      else if url cfg = ''/auth/logout'' then (Inr (ok (Obj None None)), w)
      else if authorization cfg = Some (bearer ''t2'') then (Inr (ok (Obj None None)), w)
      else (Inl unauthorized, w))"

text \<open>A server that answers every refresh with 401 (no or expired refresh cookie).\<close>

definition expired_cookie_server :: "unit adapter" where
  "expired_cookie_server w cfg =
     (if url cfg = ''/auth/refresh'' then (Inl unauthorized, w)
      else if url cfg = ''/auth/logout'' then (Inr (ok (Obj None None)), w)
      else if authorization cfg = Some (bearer ''t2'') then (Inr (ok (Obj None None)), w)
      else (Inl unauthorized, w))"

text \<open>A server that answers 401 once and is unreachable from then on.\<close>

definition failing_server :: "nat adapter" where
  "failing_server w cfg = (if w = 0 then (Inl unauthorized, Suc w) else (Inl network_error, Suc w))"

text \<open>A server that is unreachable, and one that fails every refresh with 500.\<close>

definition unreachable_server :: "unit adapter" where
  "unreachable_server w cfg = (Inl network_error, w)"

definition broken_server :: "unit adapter" where
  "broken_server w cfg = (Inl server_error, w)"

text \<open>A logged-in client whose access token \<^verbatim>\<open>t1\<close> has expired, and a fresh client.\<close>

definition stale_js :: js_state where
  "stale_js = \<lparr>store = \<lparr>user = Some alice, accessToken = Some ''t1'', isAuthenticated = True,
       isLoading = False\<rparr>,
     isRefreshing = False, console = [], background = []\<rparr>"

definition stale_client :: "'w \<Rightarrow> 'w machine" where
  "stale_client w = \<lparr>js = stale_js, world = w, sent = []\<rparr>"

definition fresh_client :: "'w \<Rightarrow> 'w machine" where
  "fresh_client w = \<lparr>js = \<lparr>store = initial_session, isRefreshing = False, console = [],
     background = []\<rparr>, world = w, sent = []\<rparr>"

definition get_products :: request_config where
  "get_products = \<lparr>url = ''/products'', verb = GET, payload = [], authorization = None,
     retry = False\<rparr>"

section \<open>Interleaved requests\<close>

text \<open>
  JavaScript runs one piece of code at a time and switches only at an \<^verbatim>\<open>await\<close> or
  when a promise settles. The interleaved model has one step for each piece that runs
  without interruption; the steps are the segments \<open>handle_rejected\<close>,
  \<open>refresh_resolved\<close>, \<open>refresh_caught\<close> and \<open>logout_settled\<close> above. Any step
  that is enabled may come next, so the model allows every schedule of the runtime.

  A request in flight remembers who awaits it: application code (\<open>App\<close>: a component,
  \<^verbatim>\<open>login\<close>, \<^verbatim>\<open>initAuth\<close>, whose own code is outside the HTTP client), the store's
  \<^verbatim>\<open>logout\<close>, or a 401 handler suspended at \<^verbatim>\<open>await api.post('/auth/refresh')\<close> with its
  \<^verbatim>\<open>originalRequest\<close> and its own awaiter.
\<close>

datatype cont = App | AwaitLogout | AwaitRefresh request_config cont

record conc =
  cjs :: js_state
  inflight :: "(request_config \<times> cont) list"
  ready :: "(cont \<times> outcome) list"
  issued :: "request_config list"
  delivered :: "outcome list"

datatype event =
    Call request_config
  | CallLogout
  | Settle nat outcome
  | Resume nat

text \<open>\<^verbatim>\<open>api(cfg)\<close> awaited by \<open>k\<close>: the request interceptor runs and the request leaves.\<close>

definition issue :: "request_config \<Rightarrow> cont \<Rightarrow> conc \<Rightarrow> conc" where
  "issue cfg k c =
     c\<lparr>inflight := inflight c @ [(request_interceptor (store (cjs c)) cfg, k)],
       issued := issued c @ [request_interceptor (store (cjs c)) cfg]\<rparr>"

text \<open>The calls started without \<^verbatim>\<open>await\<close> begin at once.\<close>

fun launch :: "task list \<Rightarrow> conc \<Rightarrow> conc" where
  "launch [] c = c"
| "launch (LogoutCall # ts) c = launch ts (issue logout_request AwaitLogout c)"

definition launch_background :: "conc \<Rightarrow> conc" where
  "launch_background c = launch (background (cjs c)) (c\<lparr>cjs := (cjs c)\<lparr>background := []\<rparr>\<rparr>)"

text \<open>
  A request in flight settles: a response goes to the awaiter; an error goes through
  \<open>handle_rejected\<close>, which either rejects to the awaiter or suspends on a refresh call.
\<close>

definition settle :: "request_config \<Rightarrow> cont \<Rightarrow> outcome \<Rightarrow> conc \<Rightarrow> conc" where
  "settle cfg k out c =
     (case out of
        Inr resp \<Rightarrow> c\<lparr>ready := ready c @ [(k, Inr resp)]\<rparr>
      | Inl e \<Rightarrow>
         (case handle_rejected (cjs c) (e\<lparr>config := Some cfg\<rparr>) of
            Reject error st \<Rightarrow> c\<lparr>cjs := st, ready := ready c @ [(k, Inl error)]\<rparr>
          | Refresh originalRequest st \<Rightarrow>
              issue refresh_request (AwaitRefresh originalRequest k) (c\<lparr>cjs := st\<rparr>)))"

text \<open>An awaiter runs with the outcome it was waiting for.\<close>

fun resume :: "cont \<Rightarrow> outcome \<Rightarrow> conc \<Rightarrow> conc" where
  "resume App out c = c\<lparr>delivered := delivered c @ [out]\<rparr>"
| "resume AwaitLogout out c = c\<lparr>cjs := logout_settled out (cjs c)\<rparr>"
| "resume (AwaitRefresh originalRequest k) (Inr refreshResponse) c =
     (case refresh_resolved (cjs c) originalRequest refreshResponse of
        Retry originalRequest' st \<Rightarrow> issue originalRequest' k (c\<lparr>cjs := st\<rparr>)
      | Threw err st \<Rightarrow>
          launch_background (c\<lparr>cjs := refresh_caught st err, ready := ready c @ [(k, Inl err)]\<rparr>))"
| "resume (AwaitRefresh originalRequest k) (Inl err) c =
     launch_background (c\<lparr>cjs := refresh_caught (cjs c) err, ready := ready c @ [(k, Inl err)]\<rparr>)"

definition remove_nth :: "nat \<Rightarrow> 'a list \<Rightarrow> 'a list" where
  "remove_nth i xs = take i xs @ drop (Suc i) xs"

fun step :: "event \<Rightarrow> conc \<Rightarrow> conc option" where
  "step (Call cfg) c = Some (issue cfg App c)"
| "step CallLogout c = Some (issue logout_request AwaitLogout c)"
| "step (Settle i out) c =
     (if i < length (inflight c)
      then (case inflight c ! i of
              (cfg, k) \<Rightarrow> Some (settle cfg k out (c\<lparr>inflight := remove_nth i (inflight c)\<rparr>)))
      else None)"
| "step (Resume j) c =
     (if j < length (ready c)
      then (case ready c ! j of
              (k, out) \<Rightarrow> Some (resume k out (c\<lparr>ready := remove_nth j (ready c)\<rparr>)))
      else None)"

fun run :: "event list \<Rightarrow> conc \<Rightarrow> conc option" where
  "run [] c = Some c"
| "run (ev # evs) c = (case step ev c of None \<Rightarrow> None | Some c' \<Rightarrow> run evs c')"

text \<open>The module starts with \<^verbatim>\<open>isRefreshing = false\<close> and nothing in flight.\<close>

definition initial :: "session \<Rightarrow> conc" where
  "initial s = \<lparr>cjs = \<lparr>store = s, isRefreshing = False, console = [], background = []\<rparr>,
     inflight = [], ready = [], issued = [], delivered = []\<rparr>"

inductive reachable :: "conc \<Rightarrow> bool" where
  reach_initial: "reachable (initial s)"
| reach_step: "reachable c \<Longrightarrow> step ev c = Some c' \<Longrightarrow> reachable c'"

text \<open>
  The refresh calls in flight that a 401 handler made and awaits, and the number of
  handlers suspended between setting and clearing the flag (one per \<open>AwaitRefresh\<close>).
\<close>

fun awaits_refresh :: "cont \<Rightarrow> bool" where
  "awaits_refresh (AwaitRefresh originalRequest k) = True"
| "awaits_refresh k = False"

definition handler_refreshes :: "conc \<Rightarrow> (request_config \<times> cont) list" where
  "handler_refreshes c = filter (\<lambda>(cfg, k). awaits_refresh k) (inflight c)"

fun frames :: "cont \<Rightarrow> nat" where
  "frames App = 0"
| "frames AwaitLogout = 0"
| "frames (AwaitRefresh originalRequest k) = Suc (frames k)"

definition holders :: "conc \<Rightarrow> nat" where
  "holders c = sum_list (map (\<lambda>(cfg, k). frames k) (inflight c))
             + sum_list (map (\<lambda>(k, out). frames k) (ready c))"

text \<open>
  The invariant of the interleaved client: the flag is set exactly while one handler is
  suspended on its refresh call, no started call is left waiting to begin, and a request
  awaited by a suspended handler is a refresh call.
\<close>

definition flag_invariant :: "conc \<Rightarrow> bool" where
  "flag_invariant c \<longleftrightarrow>
     holders c = (if isRefreshing (cjs c) then 1 else 0)
     \<and> background (cjs c) = []
     \<and> (\<forall>(cfg, k)\<in>set (inflight c). awaits_refresh k \<longrightarrow> url cfg = ''/auth/refresh'')"

definition get_me :: request_config where
  "get_me = \<lparr>url = ''/users/me'', verb = GET, payload = [], authorization = None,
     retry = False\<rparr>"

definition login_request :: request_config where
  "login_request = \<lparr>url = ''/auth/login'', verb = POST, payload = ''a@b.com:wrong'',
     authorization = None, retry = False\<rparr>"

text \<open>The requests in flight that go to the refresh endpoint, whoever made them.\<close>

definition refreshes_in_flight :: "conc \<Rightarrow> (request_config \<times> cont) list" where
  "refreshes_in_flight c = filter (\<lambda>(cfg, k). url cfg = ''/auth/refresh'') (inflight c)"

text \<open>
  Four states of the interleaved client. \<open>init_and_login\<close>: at start-up
  \<^verbatim>\<open>initAuth\<close> has called the refresh endpoint and, before the answer, a login attempt
  was answered 401. \<open>refresh_in_flight\<close>: two requests were sent with the stale
  token and the 401 of the first has started a refresh. \<open>rejected_during_refresh\<close>:
  the 401 of the second has arrived while that refresh was in flight.
  \<open>all_settled\<close>: the refresh and the retry of the first request have succeeded and
  every awaiter has run.
\<close>

definition init_and_login :: conc where
  "init_and_login =
     \<lparr>cjs = \<lparr>store = initial_session, isRefreshing = True, console = [], background = []\<rparr>,
      inflight = [(refresh_request, App),
                  (refresh_request, AwaitRefresh (login_request\<lparr>retry := True\<rparr>) App)],
      ready = [],
      issued = [refresh_request, login_request, refresh_request],
      delivered = []\<rparr>"

definition refresh_in_flight :: conc where
  "refresh_in_flight =
     \<lparr>cjs = stale_js\<lparr>isRefreshing := True\<rparr>,
      inflight = [(get_me\<lparr>authorization := Some ''Bearer t1''\<rparr>, App),
                  (refresh_request\<lparr>authorization := Some ''Bearer t1''\<rparr>,
                   AwaitRefresh (get_products\<lparr>authorization := Some ''Bearer t1'',
                                              retry := True\<rparr>) App)],
      ready = [],
      issued = [get_products\<lparr>authorization := Some ''Bearer t1''\<rparr>,
                get_me\<lparr>authorization := Some ''Bearer t1''\<rparr>,
                refresh_request\<lparr>authorization := Some ''Bearer t1''\<rparr>],
      delivered = []\<rparr>"

definition rejected_during_refresh :: conc where
  "rejected_during_refresh =
     \<lparr>cjs = stale_js\<lparr>isRefreshing := True\<rparr>,
      inflight = [(refresh_request\<lparr>authorization := Some ''Bearer t1''\<rparr>,
                   AwaitRefresh (get_products\<lparr>authorization := Some ''Bearer t1'',
                                              retry := True\<rparr>) App)],
      ready = [(App, Inl (unauthorized\<lparr>config :=
                  Some (get_me\<lparr>authorization := Some ''Bearer t1'', retry := True\<rparr>)\<rparr>))],
      issued = [get_products\<lparr>authorization := Some ''Bearer t1''\<rparr>,
                get_me\<lparr>authorization := Some ''Bearer t1''\<rparr>,
                refresh_request\<lparr>authorization := Some ''Bearer t1''\<rparr>],
      delivered = []\<rparr>"

definition all_settled :: conc where
  "all_settled =
     \<lparr>cjs = stale_js\<lparr>store := (store stale_js)\<lparr>accessToken := Some ''t2''\<rparr>\<rparr>,
      inflight = [],
      ready = [],
      issued = [get_products\<lparr>authorization := Some ''Bearer t1''\<rparr>,
                get_me\<lparr>authorization := Some ''Bearer t1''\<rparr>,
                refresh_request\<lparr>authorization := Some ''Bearer t1''\<rparr>,
                get_products\<lparr>authorization := Some ''Bearer t2'', retry := True\<rparr>],
      delivered = [Inl (unauthorized\<lparr>config :=
                     Some (get_me\<lparr>authorization := Some ''Bearer t1'', retry := True\<rparr>)\<rparr>),
                   Inr (ok (Obj None None))]\<rparr>"


section \<open>The server: AuthService and AuthController\<close>

text \<open>
  \<^verbatim>\<open>backend/src/auth/auth.service.ts\<close>, the controller in front of it and the
  \<^verbatim>\<open>User\<close> entity. A JavaScript object is the list of its own properties, in order.
\<close>

datatype js_value = JNumber nat | JString string | JDate nat | JObject "(string \<times> js_value) list"

type_synonym js_object = "(string \<times> js_value) list"

record user_entity =
  entity_id :: nat
  entity_email :: string
  password :: string
  createdAt :: nat

definition own_properties :: "user_entity \<Rightarrow> js_object" where
  "own_properties u = [(''id'', JNumber (entity_id u)), (''email'', JString (entity_email u)),
     (''password'', JString (password u)), (''createdAt'', JDate (createdAt u))]"

text \<open>\<^verbatim>\<open>const { k: _, ...rest } = obj\<close>: every own property but \<open>k\<close>.\<close>

definition rest_without :: "string \<Rightarrow> js_object \<Rightarrow> js_object" where
  "rest_without k obj = filter (\<lambda>(name, v). name \<noteq> k) obj"

record credentials =
  dto_email :: string
  dto_password :: string

record jwt_payload =
  sub :: nat
  payload_email :: string

record sign_options =
  secret :: "string option"
  expiresIn :: string

text \<open>
  What the service is constructed with and imports: \<^verbatim>\<open>UsersService\<close> (not among the
  sources; it works on a database \<open>'db\<close>), \<^verbatim>\<open>JwtService\<close>, \<^verbatim>\<open>bcrypt\<close> and the
  environment variable \<^verbatim>\<open>JWT_REFRESH_SECRET\<close>. \<open>sign p None\<close> is \<^verbatim>\<open>sign(p)\<close> with the
  module's own secret and lifetime; \<open>verifyAsync\<close> gives \<open>None\<close> where the library throws.
  In the functions below a primed name is the source's local of that name.
\<close>

record 'db deps =
  findByEmail :: "'db \<Rightarrow> string \<Rightarrow> user_entity option"
  findById :: "'db \<Rightarrow> nat \<Rightarrow> user_entity option"
  create :: "'db \<Rightarrow> string \<Rightarrow> string \<Rightarrow> user_entity \<times> 'db"
  bcrypt_hash :: "string \<Rightarrow> nat \<Rightarrow> string"
  bcrypt_compare :: "string \<Rightarrow> string \<Rightarrow> bool"
  sign :: "jwt_payload \<Rightarrow> sign_options option \<Rightarrow> string"
  verifyAsync :: "string \<Rightarrow> string option \<Rightarrow> jwt_payload option"
  JWT_REFRESH_SECRET :: "string option"

datatype http_exception = ConflictException string | UnauthorizedException string

text \<open>The options of \<^verbatim>\<open>res.cookie\<close> and \<^verbatim>\<open>res.clearCookie\<close>; an option not given is \<open>None\<close>.\<close>

record cookie_options =
  httpOnly :: "bool option"
  secure :: "bool option"
  sameSite :: "string option"
  path :: "string option"
  maxAge :: "nat option"
  expires :: "nat option"

datatype cookie_header =
    SetCookie string string cookie_options
  | ClearCookie string cookie_options

record express_response =
  cookie_headers :: "cookie_header list"
  json_body :: "js_object option"

definition cookie :: "string \<Rightarrow> string \<Rightarrow> cookie_options \<Rightarrow> express_response \<Rightarrow> express_response" where
  "cookie name v opts res = res\<lparr>cookie_headers := cookie_headers res @ [SetCookie name v opts]\<rparr>"

definition clearCookie :: "string \<Rightarrow> cookie_options \<Rightarrow> express_response \<Rightarrow> express_response" where
  "clearCookie name opts res = res\<lparr>cookie_headers := cookie_headers res @ [ClearCookie name opts]\<rparr>"

definition json :: "js_object \<Rightarrow> express_response \<Rightarrow> express_response" where
  "json obj res = res\<lparr>json_body := Some obj\<rparr>"

definition refresh_cookie_options :: cookie_options where
  "refresh_cookie_options = \<lparr>httpOnly = Some True, secure = Some False, sameSite = Some ''lax'',
     path = Some ''/'', maxAge = None, expires = None\<rparr>"

text \<open>The object \<^verbatim>\<open>{ access_token, user }\<close> that register, login and refresh return.\<close>

definition token_and_user :: "string \<Rightarrow> js_object \<Rightarrow> js_object" where
  "token_and_user tok u = [(''access_token'', JString tok), (''user'', JObject u)]"

definition register ::
  "'db deps \<Rightarrow> 'db \<Rightarrow> credentials \<Rightarrow> express_response
     \<Rightarrow> http_exception + (js_object \<times> express_response \<times> 'db)" where
  "register d db registerDto res =
     (case findByEmail d db (dto_email registerDto) of
        Some existingUser \<Rightarrow> Inl (ConflictException ''Email already exists'')
      | None \<Rightarrow>
          (let hashedPassword = bcrypt_hash d (dto_password registerDto) 10;
               (user', db') = create d db (dto_email registerDto) hashedPassword;
               payload' = \<lparr>sub = entity_id user', payload_email = entity_email user'\<rparr>;
               access_token' = sign d payload' None;
               refresh_token = sign d payload'
                 (Some \<lparr>secret = JWT_REFRESH_SECRET d, expiresIn = ''7d''\<rparr>);
               res' = cookie ''refresh_token'' refresh_token refresh_cookie_options res;
               userWithoutPassword = rest_without ''password'' (own_properties user')
           in Inr (token_and_user access_token' userWithoutPassword, res', db')))"

definition login ::
  "'db deps \<Rightarrow> 'db \<Rightarrow> credentials \<Rightarrow> express_response
     \<Rightarrow> http_exception + (js_object \<times> express_response)" where
  "login d db loginDto res =
     (case findByEmail d db (dto_email loginDto) of
        None \<Rightarrow> Inl (UnauthorizedException ''Invalid credentials'')
      | Some user' \<Rightarrow>
          if \<not> bcrypt_compare d (dto_password loginDto) (password user')
          then Inl (UnauthorizedException ''Invalid credentials'')
          else
            (let payload' = \<lparr>sub = entity_id user', payload_email = entity_email user'\<rparr>;
                 access_token' = sign d payload' None;
                 refresh_token = sign d payload'
                   (Some \<lparr>secret = JWT_REFRESH_SECRET d, expiresIn = ''7d''\<rparr>);
                 res' = cookie ''refresh_token'' refresh_token refresh_cookie_options res;
                 userWithoutPassword = rest_without ''password'' (own_properties user')
             in Inr (token_and_user access_token' userWithoutPassword, res')))"

text \<open>
  \<^verbatim>\<open>refresh\<close> reads \<^verbatim>\<open>req.cookies?.refresh_token\<close> (absent or empty is falsy). Whatever
  is thrown inside its \<^verbatim>\<open>try\<close>, also its own \<^verbatim>\<open>User not found\<close>, is replaced by
  \<^verbatim>\<open>Invalid refresh token\<close>.
\<close>

definition refresh :: "'db deps \<Rightarrow> 'db \<Rightarrow> string option \<Rightarrow> http_exception + js_object" where
  "refresh d db cookies_refresh_token =
     (case cookies_refresh_token of
        None \<Rightarrow> Inl (UnauthorizedException ''No refresh token provided'')
      | Some refreshToken \<Rightarrow>
          if refreshToken = [] then Inl (UnauthorizedException ''No refresh token provided'')
          else
            (case verifyAsync d refreshToken (JWT_REFRESH_SECRET d) of
               None \<Rightarrow> Inl (UnauthorizedException ''Invalid refresh token'')
             | Some payload' \<Rightarrow>
                (case findById d db (sub payload') of
                   None \<Rightarrow> Inl (UnauthorizedException ''Invalid refresh token'')
                 | Some user' \<Rightarrow>
                     (let newAccessToken =
                            sign d \<lparr>sub = entity_id user', payload_email = entity_email user'\<rparr> None
                      in Inr (token_and_user newAccessToken
                            [(''id'', JNumber (entity_id user')),
                             (''email'', JString (entity_email user'))])))))"

text \<open>
  \<^verbatim>\<open>AuthService.logout\<close>: the response after \<^verbatim>\<open>clearCookie\<close> and the value its promise
  resolves with.
\<close>

definition logout_service :: "express_response \<Rightarrow> js_object \<times> express_response" where
  "logout_service res =
     ([(''message'', JString ''Logged out successfully'')],
      clearCookie ''refresh_token''
        \<lparr>httpOnly = Some True, secure = None, sameSite = None, path = Some ''/'',
         maxAge = None, expires = None\<rparr> res)"

text \<open>
  The controller: \<^verbatim>\<open>register\<close> and \<^verbatim>\<open>login\<close> await the service and send its result
  with \<^verbatim>\<open>res.json\<close>; \<^verbatim>\<open>refresh\<close> returns it, and the framework sends it as the body.
  \<^verbatim>\<open>logout\<close> does not await the service: \<^verbatim>\<open>AuthService.logout\<close> is an async function,
  so what \<^verbatim>\<open>res.json\<close> receives is its promise. The service has cleared the cookie by
  then (its body has no \<^verbatim>\<open>await\<close>), and a promise has no own enumerable property, so
  the body that is sent is the empty object.
\<close>

definition promise_properties :: js_object where
  "promise_properties = []"

definition controller_register ::
  "'db deps \<Rightarrow> 'db \<Rightarrow> credentials \<Rightarrow> express_response
     \<Rightarrow> http_exception + (express_response \<times> 'db)" where
  "controller_register d db registerDto res =
     (case register d db registerDto res of
        Inl exn \<Rightarrow> Inl exn
      | Inr (result, res', db') \<Rightarrow> Inr (json result res', db'))"

definition controller_login ::
  "'db deps \<Rightarrow> 'db \<Rightarrow> credentials \<Rightarrow> express_response \<Rightarrow> http_exception + express_response" where
  "controller_login d db loginDto res =
     (case login d db loginDto res of
        Inl exn \<Rightarrow> Inl exn
      | Inr (result, res') \<Rightarrow> Inr (json result res'))"

definition controller_refresh ::
  "'db deps \<Rightarrow> 'db \<Rightarrow> string option \<Rightarrow> express_response \<Rightarrow> http_exception + express_response" where
  "controller_refresh d db cookies_refresh_token res =
     (case refresh d db cookies_refresh_token of
        Inl exn \<Rightarrow> Inl exn
      | Inr result \<Rightarrow> Inr (json result res))"

definition controller_logout :: "express_response \<Rightarrow> express_response" where
  "controller_logout res =
     (case logout_service res of (result, res') \<Rightarrow> json promise_properties res')"

text \<open>Every property name that occurs in a value, at any depth.\<close>

fun property_names :: "js_value \<Rightarrow> string list"
  and names_of :: "(string \<times> js_value) list \<Rightarrow> string list" where
  "property_names (JObject props) = names_of props"
| "property_names (JNumber n) = []"
| "property_names (JString s) = []"
| "property_names (JDate t) = []"
| "names_of [] = []"
| "names_of ((name, v) # props) = name # property_names v @ names_of props"

subsection \<open>Example dependencies\<close>

text \<open>
  A users service over a list of entities; a \<^verbatim>\<open>bcrypt\<close> and a \<^verbatim>\<open>JwtService\<close> reduced to
  tagging. They stand in for the libraries in the examples only.
\<close>

definition example_deps :: "(user_entity list) deps" where
  "example_deps =
     \<lparr>findByEmail = (\<lambda>db e. find (\<lambda>u. entity_email u = e) db),
      findById = (\<lambda>db i. find (\<lambda>u. entity_id u = i) db),
      create = (\<lambda>db e p.
         (let u = \<lparr>entity_id = Suc (length db), entity_email = e, password = p, createdAt = 0\<rparr>
          in (u, db @ [u]))),
      bcrypt_hash = (\<lambda>p rounds. ''hash:'' @ p),
      bcrypt_compare = (\<lambda>p h. h = ''hash:'' @ p),
      sign = (\<lambda>p opts. case opts of None \<Rightarrow> ''access:'' @ payload_email p
                                   | Some o' \<Rightarrow> ''refresh:'' @ payload_email p),
      verifyAsync = (\<lambda>t s. if t = ''refresh:a@b.com''
                           then Some \<lparr>sub = 1, payload_email = ''a@b.com''\<rparr> else None),
      JWT_REFRESH_SECRET = Some ''r''\<rparr>"

definition new_response :: express_response where
  "new_response = \<lparr>cookie_headers = [], json_body = None\<rparr>"

definition secret1 :: credentials where
  "secret1 = \<lparr>dto_email = ''a@b.com'', dto_password = ''secret1''\<rparr>"

definition stored_alice :: user_entity where
  "stored_alice = \<lparr>entity_id = 1, entity_email = ''a@b.com'', password = ''hash:secret1'',
     createdAt = 0\<rparr>"


section \<open>Properties of the interceptors\<close>


lemma handle_rejected_Reject:
  "handle_rejected st e = Reject e' st' \<Longrightarrow> st' = st"
  by (auto simp: handle_rejected_def Let_def split: option.splits if_splits)

lemma handle_rejected_Refresh:
  "handle_rejected st e = Refresh orig st' \<longleftrightarrow>
     response_status e = Some 401 \<and> \<not> isRefreshing st \<and>
     (\<exists>c. config e = Some c \<and> \<not> retry c \<and> orig = c\<lparr>retry := True\<rparr>) \<and>
     st' = st\<lparr>isRefreshing := True\<rparr>"
  by (auto simp: handle_rejected_def Let_def split: option.splits)

lemma response_status_config [simp]: "response_status (e\<lparr>config := c\<rparr>) = response_status e"
  by (simp add: response_status_def)

lemma retry_request_interceptor [simp]: "retry (request_interceptor s cfg) = retry cfg"
  by (simp add: request_interceptor_def split: option.split)

lemma url_request_interceptor [simp]: "url (request_interceptor s cfg) = url cfg"
  by (simp add: request_interceptor_def split: option.split)

lemma api_Inr:
  assumes "A (world m) (request_interceptor (store (js m)) cfg) = (Inr resp, w)"
  shows "api A m cfg =
    (Inr resp, m\<lparr>world := w, sent := sent m @ [request_interceptor (store (js m)) cfg]\<rparr>)"
  using assms by (subst api.simps) (simp add: Let_def)

lemma api_Reject:
  assumes "A (world m) (request_interceptor (store (js m)) cfg) = (Inl e, w)"
    and "handle_rejected (js m) (e\<lparr>config := Some (request_interceptor (store (js m)) cfg)\<rparr>)
           = Reject e' st"
  shows "api A m cfg =
    (Inl e', m\<lparr>world := w, sent := sent m @ [request_interceptor (store (js m)) cfg]\<rparr>)"
proof -
  have "st = js m" using assms(2) by (rule handle_rejected_Reject)
  then show ?thesis using assms by (subst api.simps) (simp add: Let_def)
qed

lemma api_Refresh:
  assumes "A (world m) (request_interceptor (store (js m)) cfg) = (Inl e, w)"
    and "handle_rejected (js m) (e\<lparr>config := Some (request_interceptor (store (js m)) cfg)\<rparr>)
           = Refresh orig st"
  shows "api A m cfg =
    (case api A (m\<lparr>world := w, sent := sent m @ [request_interceptor (store (js m)) cfg],
                    js := st\<rparr>) refresh_request of
       (Inr refreshResponse, m2) \<Rightarrow>
         (case refresh_resolved (js m2) orig refreshResponse of
            Retry originalRequest' st' \<Rightarrow> api A (m2\<lparr>js := st'\<rparr>) originalRequest'
          | Threw err st' \<Rightarrow> (Inl err, m2\<lparr>js := refresh_caught st' err\<rparr>))
     | (Inl err, m2) \<Rightarrow> (Inl err, m2\<lparr>js := refresh_caught (js m2) err\<rparr>))"
  using assms by (subst api.simps) (simp add: Let_def)


lemma handle_rejected_preserves:
  assumes "handle_rejected st e = Reject e' st'" and "config e \<noteq> None"
  shows "is_axios e' = is_axios e \<and> is_error e' = is_error e \<and> code e' = code e \<and>
         err_response e' = err_response e \<and> message e' = message e"
  using assms by (auto simp: handle_rejected_def Let_def split: option.splits if_splits)

lemma handle_rejected_marked:
  assumes "config e = Some c" and "retry c"
  shows "handle_rejected st e = Reject e st"
  using assms by (simp add: handle_rejected_def)

lemma handle_rejected_in_flight:
  assumes "config e = Some c" and "isRefreshing st"
  shows "handle_rejected st e =
     Reject (if response_status e = Some 401 \<and> \<not> retry c
             then e\<lparr>config := Some (c\<lparr>retry := True\<rparr>)\<rparr> else e) st"
  using assms by (simp add: handle_rejected_def Let_def)

text \<open>A call made for a marked request is a single exchange.\<close>

lemma api_marked:
  assumes "retry cfg"
    and "A (world m) (request_interceptor (store (js m)) cfg) = (out, w)"
  shows "api A m cfg =
     (case out of Inr resp \<Rightarrow> Inr resp
      | Inl e \<Rightarrow> Inl (e\<lparr>config := Some (request_interceptor (store (js m)) cfg)\<rparr>),
      m\<lparr>world := w, sent := sent m @ [request_interceptor (store (js m)) cfg]\<rparr>)"
proof (cases out)
  case (Inr resp)
  then show ?thesis using assms(2) by (simp add: api_Inr)
next
  case (Inl e)
  let ?c = "request_interceptor (store (js m)) cfg"
  have "handle_rejected (js m) (e\<lparr>config := Some ?c\<rparr>) = Reject (e\<lparr>config := Some ?c\<rparr>) (js m)"
    using assms(1) by (intro handle_rejected_marked[where c = ?c]) simp_all
  with Inl assms(2) show ?thesis by (simp add: api_Reject)
qed

text \<open>So is a call made while the flag is set.\<close>

lemma api_in_flight:
  assumes "isRefreshing (js m)"
    and "A (world m) (request_interceptor (store (js m)) cfg) = (out, w)"
  shows "api A m cfg =
     (case out of Inr resp \<Rightarrow> Inr resp
      | Inl e \<Rightarrow> Inl (if response_status e = Some 401 \<and> \<not> retry cfg
           then e\<lparr>config := Some ((request_interceptor (store (js m)) cfg)\<lparr>retry := True\<rparr>)\<rparr>
           else e\<lparr>config := Some (request_interceptor (store (js m)) cfg)\<rparr>),
      m\<lparr>world := w, sent := sent m @ [request_interceptor (store (js m)) cfg]\<rparr>)"
proof (cases out)
  case (Inr resp)
  then show ?thesis using assms(2) by (simp add: api_Inr)
next
  case (Inl e)
  let ?c = "request_interceptor (store (js m)) cfg"
  have "handle_rejected (js m) (e\<lparr>config := Some ?c\<rparr>) =
     Reject (if response_status e = Some 401 \<and> \<not> retry cfg
             then e\<lparr>config := Some (?c\<lparr>retry := True\<rparr>)\<rparr> else e\<lparr>config := Some ?c\<rparr>) (js m)"
    using assms(1) by (subst handle_rejected_in_flight[where c = ?c]) simp_all
  with Inl assms(2) show ?thesis by (simp add: api_Reject)
qed


lemma retry_stamp:
  "request_interceptor (s\<lparr>accessToken := tok\<rparr>)
     (c\<lparr>authorization := Some (bearer (template tok))\<rparr>)
   = c\<lparr>authorization := Some (bearer (template tok))\<rparr>"
  by (cases tok) (simp_all add: request_interceptor_def template_def)

lemma refresh_request_unmarked [simp]: "\<not> retry refresh_request"
  by (simp add: refresh_request_def)

text \<open>The three ways through the handler when it starts a refresh.\<close>

lemma api_refresh_rejected:
  assumes flag: "\<not> isRefreshing (js m)" and mark: "\<not> retry cfg"
    and orig: "A (world m) (request_interceptor (store (js m)) cfg) = (Inl e, w1)"
    and unauth: "response_status e = Some 401"
    and refresh: "A w1 (request_interceptor (store (js m)) refresh_request) = (Inl err, w2)"
  shows "api A m cfg =
     (let rcfg = request_interceptor (store (js m)) refresh_request;
          err' = (if response_status err = Some 401
                  then err\<lparr>config := Some (rcfg\<lparr>retry := True\<rparr>)\<rparr>
                  else err\<lparr>config := Some rcfg\<rparr>)
      in (Inl err',
          m\<lparr>world := w2,
            sent := sent m @ [request_interceptor (store (js m)) cfg, rcfg],
            js := refresh_caught ((js m)\<lparr>isRefreshing := True\<rparr>) err'\<rparr>))"
proof -
  let ?c = "request_interceptor (store (js m)) cfg"
  let ?m1 = "m\<lparr>world := w1, sent := sent m @ [?c], js := (js m)\<lparr>isRefreshing := True\<rparr>\<rparr>"
  have enter: "handle_rejected (js m) (e\<lparr>config := Some ?c\<rparr>)
                 = Refresh (?c\<lparr>retry := True\<rparr>) ((js m)\<lparr>isRefreshing := True\<rparr>)"
    using flag mark unauth by (simp add: handle_rejected_Refresh)
  have inner: "api A ?m1 refresh_request =
      (Inl (if response_status err = Some 401 \<and> \<not> retry refresh_request
            then err\<lparr>config := Some ((request_interceptor (store (js ?m1)) refresh_request)\<lparr>retry := True\<rparr>)\<rparr>
            else err\<lparr>config := Some (request_interceptor (store (js ?m1)) refresh_request)\<rparr>),
       ?m1\<lparr>world := w2, sent := sent ?m1 @ [request_interceptor (store (js ?m1)) refresh_request]\<rparr>)"
    using refresh by (subst api_in_flight[where out = "Inl err" and w = w2]) simp_all
  show ?thesis
    by (subst api_Refresh[where A = A and m = m and cfg = cfg, OF orig enter]) (simp add: inner Let_def)
qed

lemma api_refresh_null:
  assumes flag: "\<not> isRefreshing (js m)" and mark: "\<not> retry cfg"
    and orig: "A (world m) (request_interceptor (store (js m)) cfg) = (Inl e, w1)"
    and unauth: "response_status e = Some 401"
    and refresh: "A w1 (request_interceptor (store (js m)) refresh_request) = (Inr rr, w2)"
    and null: "data rr = Null"
  shows "api A m cfg =
     (Inl type_error,
      m\<lparr>world := w2,
        sent := sent m @ [request_interceptor (store (js m)) cfg,
                          request_interceptor (store (js m)) refresh_request],
        js := refresh_caught ((js m)\<lparr>isRefreshing := True\<rparr>) type_error\<rparr>)"
proof -
  let ?c = "request_interceptor (store (js m)) cfg"
  let ?m1 = "m\<lparr>world := w1, sent := sent m @ [?c], js := (js m)\<lparr>isRefreshing := True\<rparr>\<rparr>"
  have enter: "handle_rejected (js m) (e\<lparr>config := Some ?c\<rparr>)
                 = Refresh (?c\<lparr>retry := True\<rparr>) ((js m)\<lparr>isRefreshing := True\<rparr>)"
    using flag mark unauth by (simp add: handle_rejected_Refresh)
  have inner: "api A ?m1 refresh_request =
      (Inr rr, ?m1\<lparr>world := w2, sent := sent ?m1 @ [request_interceptor (store (js ?m1)) refresh_request]\<rparr>)"
    using refresh by (subst api_Inr[where resp = rr and w = w2]) simp_all
  show ?thesis
    by (subst api_Refresh[where A = A and m = m and cfg = cfg, OF orig enter]) (simp add: inner refresh_resolved_def null)
qed

lemma api_refresh_retry:
  assumes flag: "\<not> isRefreshing (js m)" and mark: "\<not> retry cfg"
    and orig: "A (world m) (request_interceptor (store (js m)) cfg) = (Inl e, w1)"
    and unauth: "response_status e = Some 401"
    and refresh: "A w1 (request_interceptor (store (js m)) refresh_request) = (Inr rr, w2)"
    and tok: "data rr = Obj tok u"
    and again: "A w2 ((request_interceptor (store (js m)) cfg)
                  \<lparr>retry := True, authorization := Some (bearer (template tok))\<rparr>) = (out, w3)"
  shows "api A m cfg =
     (let cfg' = (request_interceptor (store (js m)) cfg)
                   \<lparr>retry := True, authorization := Some (bearer (template tok))\<rparr>
      in (case out of Inr resp \<Rightarrow> Inr resp | Inl e' \<Rightarrow> Inl (e'\<lparr>config := Some cfg'\<rparr>),
          m\<lparr>world := w3,
            sent := sent m @ [request_interceptor (store (js m)) cfg,
                              request_interceptor (store (js m)) refresh_request, cfg'],
            js := (js m)\<lparr>store := (store (js m))\<lparr>accessToken := tok\<rparr>,
                         isRefreshing := False\<rparr>\<rparr>))"
proof -
  let ?c = "request_interceptor (store (js m)) cfg"
  let ?c' = "?c\<lparr>retry := True, authorization := Some (bearer (template tok))\<rparr>"
  let ?m1 = "m\<lparr>world := w1, sent := sent m @ [?c], js := (js m)\<lparr>isRefreshing := True\<rparr>\<rparr>"
  let ?st' = "(js m)\<lparr>isRefreshing := True, store := (store (js m))\<lparr>accessToken := tok\<rparr>,
                isRefreshing := False\<rparr>"
  let ?m2 = "?m1\<lparr>world := w2, sent := sent ?m1 @ [request_interceptor (store (js ?m1)) refresh_request],
               js := ?st'\<rparr>"
  have enter: "handle_rejected (js m) (e\<lparr>config := Some ?c\<rparr>)
                 = Refresh (?c\<lparr>retry := True\<rparr>) ((js m)\<lparr>isRefreshing := True\<rparr>)"
    using flag mark unauth by (simp add: handle_rejected_Refresh)
  have inner: "api A ?m1 refresh_request =
      (Inr rr, ?m1\<lparr>world := w2, sent := sent ?m1 @ [request_interceptor (store (js ?m1)) refresh_request]\<rparr>)"
    using refresh by (subst api_Inr[where resp = rr and w = w2]) simp_all
  have stamp: "request_interceptor (store (js ?m2)) ?c' = ?c'"
    using retry_stamp[where s = "store (js m)" and tok = tok and c = "?c\<lparr>retry := True\<rparr>"] by simp
  have outer: "api A ?m2 ?c' =
      (case out of Inr resp \<Rightarrow> Inr resp | Inl e' \<Rightarrow> Inl (e'\<lparr>config := Some ?c'\<rparr>),
       ?m2\<lparr>world := w3, sent := sent ?m2 @ [?c']\<rparr>)"
    using again stamp by (subst api_marked[where out = out and w = w3]) (simp_all split: sum.split)
  show ?thesis
    apply (subst api_Refresh[where A = A and m = m and cfg = cfg, OF orig enter])
    apply (simp add: inner refresh_resolved_def tok Let_def)
    apply (simp add: outer[simplified] split: sum.split)
    done
qed


lemma api_not_401:
  assumes "A (world m) (request_interceptor (store (js m)) cfg) = (Inl e, w)"
    and "response_status e \<noteq> Some 401"
  shows "api A m cfg =
    (Inl (e\<lparr>config := Some (request_interceptor (store (js m)) cfg)\<rparr>),
     m\<lparr>world := w, sent := sent m @ [request_interceptor (store (js m)) cfg]\<rparr>)"
proof -
  have "handle_rejected (js m) (e\<lparr>config := Some (request_interceptor (store (js m)) cfg)\<rparr>)
      = Reject (e\<lparr>config := Some (request_interceptor (store (js m)) cfg)\<rparr>) (js m)"
    using assms(2) by (simp add: handle_rejected_def)
  with assms(1) show ?thesis by (rule api_Reject)
qed

text \<open>Every call has one of three shapes.\<close>

lemma api_shape:
  fixes A :: "'w adapter" and m :: "'w machine" and cfg :: request_config
  obtains
    (single) out w where
      "api A m cfg = (out, m\<lparr>world := w, sent := sent m @ [request_interceptor (store (js m)) cfg]\<rparr>)"
  | (failed) err w where "\<not> isRefreshing (js m)" and "\<not> retry cfg" and
      "api A m cfg = (Inl err, m\<lparr>world := w,
          sent := sent m @ [request_interceptor (store (js m)) cfg,
                            request_interceptor (store (js m)) refresh_request],
          js := refresh_caught ((js m)\<lparr>isRefreshing := True\<rparr>) err\<rparr>)"
  | (retried) out w tok where "\<not> isRefreshing (js m)" and "\<not> retry cfg" and
      "api A m cfg = (out, m\<lparr>world := w,
          sent := sent m @ [request_interceptor (store (js m)) cfg,
                            request_interceptor (store (js m)) refresh_request,
                            (request_interceptor (store (js m)) cfg)
                              \<lparr>retry := True, authorization := Some (bearer (template tok))\<rparr>],
          js := (js m)\<lparr>store := (store (js m))\<lparr>accessToken := tok\<rparr>, isRefreshing := False\<rparr>\<rparr>)"
proof -
  let ?c1 = "request_interceptor (store (js m)) cfg"
  let ?rc = "request_interceptor (store (js m)) refresh_request"
  obtain out w1 where first: "A (world m) ?c1 = (out, w1)" by (cases "A (world m) ?c1")
  show thesis
  proof (cases out)
    case (Inr resp)
    with first show thesis by (intro single) (simp add: api_Inr)
  next
    case (Inl e)
    note orig = first[unfolded Inl]
    show thesis
    proof (cases "isRefreshing (js m)")
      case True
      show thesis
        by (rule single) (rule api_in_flight[where A = A, OF True orig])
    next
      case flag: False
      show thesis
      proof (cases "retry cfg")
        case True
        show thesis
          by (rule single) (rule api_marked[where A = A, OF True orig])
      next
        case mark: False
        show thesis
        proof (cases "response_status e = Some 401")
          case False
          show thesis
            by (rule single) (rule api_not_401[where A = A, OF orig False])
        next
          case unauth: True
          obtain out2 w2 where second: "A w1 ?rc = (out2, w2)" by (cases "A w1 ?rc")
          show thesis
          proof (cases out2)
            case (Inl err)
            show thesis
              by (rule failed[OF flag mark])
                 (simp add: api_refresh_rejected[where A = A, OF flag mark orig unauth second[unfolded Inl]] Let_def)
          next
            case (Inr rr)
            note refresh = second[unfolded Inr]
            show thesis
            proof (cases "data rr")
              case Null
              show thesis
                by (rule failed[OF flag mark])
                   (rule api_refresh_null[where A = A, OF flag mark orig unauth refresh Null])
            next
              case (Obj tok u)
              obtain out3 w3 where third:
                "A w2 (?c1\<lparr>retry := True, authorization := Some (bearer (template tok))\<rparr>) = (out3, w3)"
                by (cases "A w2 (?c1\<lparr>retry := True, authorization := Some (bearer (template tok))\<rparr>)")
              show thesis
                by (rule retried[OF flag mark])
                   (simp add: api_refresh_retry[where A = A, OF flag mark orig unauth refresh Obj third] Let_def)
            qed
          qed
        qed
      qed
    qed
  qed
qed

lemma requests_sent_shape:
  fixes A :: "'w adapter"
  shows "requests_sent A m cfg = [request_interceptor (store (js m)) cfg]
     \<or> (\<not> retry cfg \<and> requests_sent A m cfg =
           [request_interceptor (store (js m)) cfg,
            request_interceptor (store (js m)) refresh_request])
     \<or> (\<exists>tok. \<not> retry cfg \<and> requests_sent A m cfg =
           [request_interceptor (store (js m)) cfg,
            request_interceptor (store (js m)) refresh_request,
            (request_interceptor (store (js m)) cfg)
              \<lparr>retry := True, authorization := Some (bearer (template tok))\<rparr>])"
  by (cases rule: api_shape[where A = A and m = m and cfg = cfg])
     (auto simp: requests_sent_def)

section \<open>Claims about a single request\<close>

text \<open>
  Claim C3. A request that already carries the retry mark and receives a 401 is sent once
  and rejected with that error: the client state is left as it was (no refresh call, no
  retry). For every server, marked or not, one call \<^verbatim>\<open>api(cfg)\<close> sends at most three
  requests, of which at most one carries the retry mark, so a logical request is retried
  at most once, also when every refresh is refused.
\<close>

theorem marked_request_is_not_retried:
  fixes A :: "'w adapter"
  shows "(retry cfg \<and> A (world m) (request_interceptor (store (js m)) cfg) = (Inl e, w) \<and>
          response_status e = Some 401 \<longrightarrow>
            api A m cfg =
              (Inl (e\<lparr>config := Some (request_interceptor (store (js m)) cfg)\<rparr>),
               m\<lparr>world := w, sent := sent m @ [request_interceptor (store (js m)) cfg]\<rparr>))
       \<and> (retry cfg \<longrightarrow> requests_sent A m cfg = [request_interceptor (store (js m)) cfg])
       \<and> length (filter retry (requests_sent A m cfg)) \<le> 1
       \<and> length (requests_sent A m cfg) \<le> 3"
proof (intro conjI impI)
  assume h: "retry cfg \<and> A (world m) (request_interceptor (store (js m)) cfg) = (Inl e, w) \<and>
          response_status e = Some 401"
  then have "retry cfg" and "A (world m) (request_interceptor (store (js m)) cfg) = (Inl e, w)"
    by simp_all
  from api_marked[where A = A, OF this]
  show "api A m cfg =
              (Inl (e\<lparr>config := Some (request_interceptor (store (js m)) cfg)\<rparr>),
               m\<lparr>world := w, sent := sent m @ [request_interceptor (store (js m)) cfg]\<rparr>)"
    by simp
next
  assume "retry cfg"
  then show "requests_sent A m cfg = [request_interceptor (store (js m)) cfg]"
    using requests_sent_shape[of A m cfg] by auto
next
  show "length (filter retry (requests_sent A m cfg)) \<le> 1"
    using requests_sent_shape[of A m cfg] by (auto simp: refresh_request_def)
next
  show "length (requests_sent A m cfg) \<le> 3"
    using requests_sent_shape[of A m cfg] by auto
qed


lemmas scenario_defs = stale_client_def stale_js_def get_products_def unauthorized_def
  network_error_def server_error_def ok_def alice_def request_interceptor_def bearer_def
  refresh_request_def logout_request_def response_status_def template_def fresh_client_def
  initial_session_def

theorem marked_request_witness:
  "retry (get_products\<lparr>retry := True\<rparr>) \<and>
   expired_cookie_server (world (stale_client ()))
     (request_interceptor (store (js (stale_client ()))) (get_products\<lparr>retry := True\<rparr>))
     = (Inl unauthorized, ()) \<and>
   response_status unauthorized = Some 401 \<and>
   api expired_cookie_server (stale_client ()) (get_products\<lparr>retry := True\<rparr>) =
     (Inl (unauthorized\<lparr>config := Some (get_products\<lparr>retry := True, authorization := Some ''Bearer t1''\<rparr>)\<rparr>),
      (stale_client ())\<lparr>sent := [get_products\<lparr>retry := True, authorization := Some ''Bearer t1''\<rparr>]\<rparr>) \<and>
   requests_sent expired_cookie_server (stale_client ()) (get_products\<lparr>retry := True\<rparr>) =
     [get_products\<lparr>retry := True, authorization := Some ''Bearer t1''\<rparr>]"
  using marked_request_is_not_retried[where A = expired_cookie_server and m = "stale_client ()"
      and cfg = "get_products\<lparr>retry := True\<rparr>" and e = unauthorized and w = "()"]
  by (simp add: scenario_defs expired_cookie_server_def)

text \<open>
  Claim C1. A request without the retry mark is answered 401 while no refresh is in
  flight. The handler sets the flag and calls the refresh endpoint; when that call
  succeeds with token \<open>tok\<close>, the token is stored in the session, the flag is cleared,
  the original request is sent again once, marked and with \<^verbatim>\<open>Bearer tok\<close>, and the caller
  receives the outcome of that retry. Exactly three requests are sent: the original, one
  refresh, one retry.
\<close>

theorem stale_request_is_refreshed_and_retried:
  fixes A :: "'w adapter"
  assumes "\<not> isRefreshing (js m)" and "\<not> retry cfg"
    and "A (world m) (request_interceptor (store (js m)) cfg) = (Inl e, w1)"
    and "response_status e = Some 401"
    and "A w1 (request_interceptor (store (js m)) refresh_request) = (Inr refreshResponse, w2)"
    and "data refreshResponse = Obj tok u"
    and "A w2 ((request_interceptor (store (js m)) cfg)
                  \<lparr>retry := True, authorization := Some (bearer (template tok))\<rparr>) = (out, w3)"
  shows "handle_rejected (js m) (e\<lparr>config := Some (request_interceptor (store (js m)) cfg)\<rparr>)
           = Refresh ((request_interceptor (store (js m)) cfg)\<lparr>retry := True\<rparr>)
                     ((js m)\<lparr>isRefreshing := True\<rparr>)
       \<and> api A m cfg =
          (case out of
             Inr resp \<Rightarrow> Inr resp
           | Inl e' \<Rightarrow> Inl (e'\<lparr>config := Some ((request_interceptor (store (js m)) cfg)
                  \<lparr>retry := True, authorization := Some (bearer (template tok))\<rparr>)\<rparr>),
           m\<lparr>world := w3,
             sent := sent m @
               [request_interceptor (store (js m)) cfg,
                request_interceptor (store (js m)) refresh_request,
                (request_interceptor (store (js m)) cfg)
                  \<lparr>retry := True, authorization := Some (bearer (template tok))\<rparr>],
             js := (js m)\<lparr>store := (store (js m))\<lparr>accessToken := tok\<rparr>,
                          isRefreshing := False\<rparr>\<rparr>)"
proof
  show "handle_rejected (js m) (e\<lparr>config := Some (request_interceptor (store (js m)) cfg)\<rparr>)
           = Refresh ((request_interceptor (store (js m)) cfg)\<lparr>retry := True\<rparr>)
                     ((js m)\<lparr>isRefreshing := True\<rparr>)"
    using assms(1,2,4) by (simp add: handle_rejected_Refresh)
next
  from api_refresh_retry[where A = A, OF assms]
  show "api A m cfg =
          (case out of
             Inr resp \<Rightarrow> Inr resp
           | Inl e' \<Rightarrow> Inl (e'\<lparr>config := Some ((request_interceptor (store (js m)) cfg)
                  \<lparr>retry := True, authorization := Some (bearer (template tok))\<rparr>)\<rparr>),
           m\<lparr>world := w3,
             sent := sent m @
               [request_interceptor (store (js m)) cfg,
                request_interceptor (store (js m)) refresh_request,
                (request_interceptor (store (js m)) cfg)
                  \<lparr>retry := True, authorization := Some (bearer (template tok))\<rparr>],
             js := (js m)\<lparr>store := (store (js m))\<lparr>accessToken := tok\<rparr>,
                          isRefreshing := False\<rparr>\<rparr>)"
    by (simp add: Let_def)
qed

theorem stale_request_witness:
  "api valid_cookie_server (stale_client ()) get_products =
     (Inr (ok (Obj None None)),
      (stale_client ())\<lparr>
        sent := [get_products\<lparr>authorization := Some ''Bearer t1''\<rparr>,
                 refresh_request\<lparr>authorization := Some ''Bearer t1''\<rparr>,
                 get_products\<lparr>retry := True, authorization := Some ''Bearer t2''\<rparr>],
        js := stale_js\<lparr>store := (store stale_js)\<lparr>accessToken := Some ''t2''\<rparr>\<rparr>\<rparr>)"
proof -
  let ?m = "stale_client ()"
  have h1: "\<not> isRefreshing (js ?m)" by (simp add: scenario_defs)
  have h2: "\<not> retry get_products" by (simp add: scenario_defs)
  have h3: "valid_cookie_server (world ?m) (request_interceptor (store (js ?m)) get_products)
              = (Inl unauthorized, ())"
    by (simp add: scenario_defs valid_cookie_server_def)
  have h4: "response_status unauthorized = Some 401" by (simp add: scenario_defs)
  have h5: "valid_cookie_server () (request_interceptor (store (js ?m)) refresh_request)
              = (Inr (ok (Obj (Some ''t2'') (Some alice))), ())"
    by (simp add: scenario_defs valid_cookie_server_def)
  have h6: "data (ok (Obj (Some ''t2'') (Some alice))) = Obj (Some ''t2'') (Some alice)"
    by (simp add: ok_def)
  have h7: "valid_cookie_server () ((request_interceptor (store (js ?m)) get_products)
                  \<lparr>retry := True, authorization := Some (bearer (template (Some ''t2'')))\<rparr>)
              = (Inr (ok (Obj None None)), ())"
    by (simp add: scenario_defs valid_cookie_server_def)
  from stale_request_is_refreshed_and_retried[where A = valid_cookie_server, OF h1 h2 h3 h4 h5 h6 h7]
  show ?thesis by (simp add: scenario_defs)
qed


lemma refresh_caught_config [simp]: "refresh_caught st (e\<lparr>config := c\<rparr>) = refresh_caught st e"
  by (simp add: refresh_caught_def)

text \<open>
  Claim C2, as stated, fails: when the refresh call fails, the caller does not receive
  the original request's error. The server below answers the original request with 401
  and is then unreachable; the caller receives the network error of the refresh call,
  whose \<^verbatim>\<open>config\<close> is the refresh request, and not the 401 of \<^verbatim>\<open>/products\<close>.
\<close>

theorem failed_refresh_error_counterexample:
  "fst (failing_server (world (stale_client 0))
         (request_interceptor (store (js (stale_client 0))) get_products)) = Inl unauthorized
   \<and> fst (api failing_server (stale_client 0) get_products)
       = Inl (network_error\<lparr>config := Some (refresh_request\<lparr>authorization := Some ''Bearer t1''\<rparr>)\<rparr>)
   \<and> fst (api failing_server (stale_client 0) get_products)
       \<noteq> Inl (unauthorized\<lparr>config := Some (get_products\<lparr>authorization := Some ''Bearer t1''\<rparr>)\<rparr>)
   \<and> fst (api failing_server (stale_client 0) get_products)
       \<noteq> Inl (unauthorized\<lparr>config := Some (get_products\<lparr>authorization := Some ''Bearer t1'',
                                                          retry := True\<rparr>)\<rparr>)"
proof -
  let ?m = "stale_client (0::nat)"
  have h1: "\<not> isRefreshing (js ?m)" by (simp add: scenario_defs)
  have h2: "\<not> retry get_products" by (simp add: scenario_defs)
  have h3: "failing_server (world ?m) (request_interceptor (store (js ?m)) get_products)
              = (Inl unauthorized, 1)"
    by (simp add: scenario_defs failing_server_def)
  have h4: "response_status unauthorized = Some 401" by (simp add: scenario_defs)
  have h5: "failing_server 1 (request_interceptor (store (js ?m)) refresh_request)
              = (Inl network_error, 2)"
    by (simp add: scenario_defs failing_server_def)
  from api_refresh_rejected[where A = failing_server, OF h1 h2 h3 h4 h5] h3
  show ?thesis by (simp add: scenario_defs Let_def)
qed

text \<open>
  Claim C2, amended. When the refresh attempt started by a 401 fails, the caller receives
  the error of the refresh attempt (the rejection of the refresh call as it left the
  interceptor, or the TypeError thrown on a \<^verbatim>\<open>null\<close> refresh body), and the original
  request is not sent again: the requests sent are the original and the refresh.
\<close>

theorem failed_refresh_rejects_with_its_own_error:
  fixes A :: "'w adapter"
  assumes "\<not> isRefreshing (js m)" and "\<not> retry cfg"
    and "A (world m) (request_interceptor (store (js m)) cfg) = (Inl e, w1)"
    and "response_status e = Some 401"
  shows "(A w1 (request_interceptor (store (js m)) refresh_request) = (Inl err, w2) \<longrightarrow>
            fst (api A m cfg) =
              Inl (if response_status err = Some 401
                   then err\<lparr>config := Some ((request_interceptor (store (js m)) refresh_request)
                                              \<lparr>retry := True\<rparr>)\<rparr>
                   else err\<lparr>config := Some (request_interceptor (store (js m)) refresh_request)\<rparr>)
            \<and> requests_sent A m cfg =
                [request_interceptor (store (js m)) cfg,
                 request_interceptor (store (js m)) refresh_request])
       \<and> (A w1 (request_interceptor (store (js m)) refresh_request) = (Inr refreshResponse, w2)
            \<and> data refreshResponse = Null \<longrightarrow>
            fst (api A m cfg) = Inl type_error
            \<and> requests_sent A m cfg =
                [request_interceptor (store (js m)) cfg,
                 request_interceptor (store (js m)) refresh_request])"
proof (intro conjI impI)
  assume r: "A w1 (request_interceptor (store (js m)) refresh_request) = (Inl err, w2)"
  note run = api_refresh_rejected[where A = A, OF assms r]
  show "fst (api A m cfg) =
              Inl (if response_status err = Some 401
                   then err\<lparr>config := Some ((request_interceptor (store (js m)) refresh_request)
                                              \<lparr>retry := True\<rparr>)\<rparr>
                   else err\<lparr>config := Some (request_interceptor (store (js m)) refresh_request)\<rparr>)"
    by (simp add: run Let_def)
  show "requests_sent A m cfg =
                [request_interceptor (store (js m)) cfg,
                 request_interceptor (store (js m)) refresh_request]"
    by (simp add: requests_sent_def run Let_def)
next
  assume r: "A w1 (request_interceptor (store (js m)) refresh_request) = (Inr refreshResponse, w2)
            \<and> data refreshResponse = Null"
  then have r1: "A w1 (request_interceptor (store (js m)) refresh_request) = (Inr refreshResponse, w2)"
    and r2: "data refreshResponse = Null" by simp_all
  note run = api_refresh_null[where A = A, OF assms r1 r2]
  show "fst (api A m cfg) = Inl type_error" by (simp add: run)
  show "requests_sent A m cfg =
                [request_interceptor (store (js m)) cfg,
                 request_interceptor (store (js m)) refresh_request]"
    by (simp add: requests_sent_def run)
qed

theorem failed_refresh_witness:
  "fst (api expired_cookie_server (stale_client ()) get_products)
     = Inl (unauthorized\<lparr>config := Some (refresh_request\<lparr>authorization := Some ''Bearer t1'',
                                                          retry := True\<rparr>)\<rparr>)
   \<and> requests_sent expired_cookie_server (stale_client ()) get_products
     = [get_products\<lparr>authorization := Some ''Bearer t1''\<rparr>,
        refresh_request\<lparr>authorization := Some ''Bearer t1''\<rparr>]"
proof -
  let ?m = "stale_client ()"
  have h1: "\<not> isRefreshing (js ?m)" by (simp add: scenario_defs)
  have h2: "\<not> retry get_products" by (simp add: scenario_defs)
  have h3: "expired_cookie_server (world ?m) (request_interceptor (store (js ?m)) get_products)
              = (Inl unauthorized, ())"
    by (simp add: scenario_defs expired_cookie_server_def)
  have h4: "response_status unauthorized = Some 401" by (simp add: scenario_defs)
  have h5: "expired_cookie_server () (request_interceptor (store (js ?m)) refresh_request)
              = (Inl unauthorized, ())"
    by (simp add: scenario_defs expired_cookie_server_def)
  from failed_refresh_rejects_with_its_own_error[where A = expired_cookie_server
      and err = unauthorized and ?w2.0 = "()", OF h1 h2 h3 h4] h4 h5
  show ?thesis by (simp add: scenario_defs)
qed


text \<open>
  Claim C6. When the refresh call fails with an \<^verbatim>\<open>AxiosError\<close> that has code
  \<^verbatim>\<open>ERR_NETWORK\<close> or no response, the session is cleared on the spot (user and access
  token absent, not authenticated), no logout call is started and the only requests sent
  are the original and the refresh.
\<close>

theorem unreachable_refresh_clears_session_directly:
  fixes A :: "'w adapter"
  assumes "\<not> isRefreshing (js m)" and "\<not> retry cfg"
    and "A (world m) (request_interceptor (store (js m)) cfg) = (Inl e, w1)"
    and "response_status e = Some 401"
    and "A w1 (request_interceptor (store (js m)) refresh_request) = (Inl err, w2)"
    and "is_axios err" and "code err = Some ''ERR_NETWORK'' \<or> err_response err = None"
  shows "store (js (snd (api A m cfg))) = cleared (store (js m))
       \<and> user (store (js (snd (api A m cfg)))) = None
       \<and> accessToken (store (js (snd (api A m cfg)))) = None
       \<and> \<not> isAuthenticated (store (js (snd (api A m cfg))))
       \<and> background (js (snd (api A m cfg))) = background (js m)
       \<and> requests_sent A m cfg =
            [request_interceptor (store (js m)) cfg,
             request_interceptor (store (js m)) refresh_request]"
proof -
  note run = api_refresh_rejected[where A = A, OF assms(1-5)]
  have caught: "refresh_caught ((js m)\<lparr>isRefreshing := True\<rparr>) err
      = set_state cleared ((js m)\<lparr>isRefreshing := False\<rparr>)"
    using assms(6,7) by (auto simp: refresh_caught_def)
  show ?thesis
    by (simp add: run Let_def caught set_state_def cleared_def requests_sent_def)
qed

theorem unreachable_refresh_witness:
  "store (js (snd (api failing_server (stale_client 0) get_products)))
     = \<lparr>user = None, accessToken = None, isAuthenticated = False, isLoading = False\<rparr>
   \<and> background (js (snd (api failing_server (stale_client 0) get_products))) = []
   \<and> requests_sent failing_server (stale_client 0) get_products
     = [get_products\<lparr>authorization := Some ''Bearer t1''\<rparr>,
        refresh_request\<lparr>authorization := Some ''Bearer t1''\<rparr>]"
proof -
  let ?m = "stale_client (0::nat)"
  have h1: "\<not> isRefreshing (js ?m)" by (simp add: scenario_defs)
  have h2: "\<not> retry get_products" by (simp add: scenario_defs)
  have h3: "failing_server (world ?m) (request_interceptor (store (js ?m)) get_products)
              = (Inl unauthorized, 1)"
    by (simp add: scenario_defs failing_server_def)
  have h4: "response_status unauthorized = Some 401" by (simp add: scenario_defs)
  have h5: "failing_server 1 (request_interceptor (store (js ?m)) refresh_request)
              = (Inl network_error, 2)"
    by (simp add: scenario_defs failing_server_def)
  have h6: "is_axios network_error" by (simp add: network_error_def)
  have h7: "code network_error = Some ''ERR_NETWORK'' \<or> err_response network_error = None"
    by (simp add: network_error_def)
  from unreachable_refresh_clears_session_directly[where A = failing_server,
      OF h1 h2 h3 h4 h5 h6 h7]
  show ?thesis by (simp add: scenario_defs cleared_def)
qed


lemma sent_api_prefix:
  fixes A :: "'w adapter"
  shows "\<exists>rest. sent (snd (api A m cfg)) = sent m @ request_interceptor (store (js m)) cfg # rest"
  by (cases rule: api_shape[where A = A and m = m and cfg = cfg]) simp_all

lemma console_refresh_caught [simp]: "console (refresh_caught st err) = console st"
  by (simp add: refresh_caught_def set_state_def Let_def)

lemma console_api:
  fixes A :: "'w adapter"
  shows "console (js (snd (api A m cfg))) = console (js m)"
  by (cases rule: api_shape[where A = A and m = m and cfg = cfg]) simp_all

lemma logout_clears:
  fixes A :: "'w adapter"
  shows "user (store (js (logout A m))) = None \<and> accessToken (store (js (logout A m))) = None
     \<and> \<not> isAuthenticated (store (js (logout A m)))"
  by (simp add: logout_def logout_settled_def set_state_def cleared_def Let_def
      split: prod.split sum.split)

lemma sent_logout:
  fixes A :: "'w adapter"
  shows "\<exists>rest. sent (logout A m) = sent m @ request_interceptor (store (js m)) logout_request # rest"
  using sent_api_prefix[where A = A and m = m and cfg = logout_request]
  by (auto simp: logout_def split: prod.split)

text \<open>
  Claim C7. When the refresh call fails with any other error, the handler starts
  \<^verbatim>\<open>logout()\<close> and leaves the session to it. Running that call to its end sends the
  logout request and clears the session, whatever the server answers to it.
\<close>

theorem refused_refresh_invokes_logout:
  fixes A :: "'w adapter"
  assumes "\<not> isRefreshing (js m)" and "\<not> retry cfg"
    and "A (world m) (request_interceptor (store (js m)) cfg) = (Inl e, w1)"
    and "response_status e = Some 401"
    and "A w1 (request_interceptor (store (js m)) refresh_request) = (Inl err, w2)"
    and "\<not> (is_axios err \<and> (code err = Some ''ERR_NETWORK'' \<or> err_response err = None))"
    and "background (js m) = []"
  shows "background (js (snd (api A m cfg))) = [LogoutCall]
       \<and> store (js (snd (api A m cfg))) = store (js m)
       \<and> user (store (js (run_next A (snd (api A m cfg))))) = None
       \<and> accessToken (store (js (run_next A (snd (api A m cfg))))) = None
       \<and> \<not> isAuthenticated (store (js (run_next A (snd (api A m cfg)))))
       \<and> (\<exists>rest. sent (run_next A (snd (api A m cfg))) =
             sent (snd (api A m cfg)) @ request_interceptor (store (js m)) logout_request # rest)"
proof -
  note run = api_refresh_rejected[where A = A, OF assms(1-5)]
  have caught: "refresh_caught ((js m)\<lparr>isRefreshing := True\<rparr>) err
      = (js m)\<lparr>isRefreshing := False, background := [LogoutCall]\<rparr>"
    using assms(6,7) by (auto simp: refresh_caught_def)
  obtain m' where m': "snd (api A m cfg) = m'" by simp
  have bg: "background (js m') = [LogoutCall]" and st: "store (js m') = store (js m)"
    using m' by (auto simp: run Let_def caught)
  have next_is_logout: "run_next A m' = logout A (m'\<lparr>js := (js m')\<lparr>background := []\<rparr>\<rparr>)"
    by (simp add: run_next_def bg)
  have sent': "\<exists>rest. sent (run_next A m') = sent m' @ request_interceptor (store (js m)) logout_request # rest"
    using sent_logout[where A = A and m = "m'\<lparr>js := (js m')\<lparr>background := []\<rparr>\<rparr>"]
    by (simp add: next_is_logout st)
  show ?thesis
    unfolding m' using bg st sent' logout_clears[where A = A] by (simp add: next_is_logout)
qed

theorem refused_refresh_witness:
  "background (js (snd (api expired_cookie_server (stale_client ()) get_products))) = [LogoutCall]
   \<and> store (js (run_next expired_cookie_server
                 (snd (api expired_cookie_server (stale_client ()) get_products))))
       = \<lparr>user = None, accessToken = None, isAuthenticated = False, isLoading = False\<rparr>
   \<and> sent (run_next expired_cookie_server
                 (snd (api expired_cookie_server (stale_client ()) get_products)))
       = [get_products\<lparr>authorization := Some ''Bearer t1''\<rparr>,
          refresh_request\<lparr>authorization := Some ''Bearer t1''\<rparr>,
          logout_request\<lparr>authorization := Some ''Bearer t1''\<rparr>]"
proof -
  let ?m = "stale_client ()"
  have h1: "\<not> isRefreshing (js ?m)" by (simp add: scenario_defs)
  have h2: "\<not> retry get_products" by (simp add: scenario_defs)
  have h3: "expired_cookie_server (world ?m) (request_interceptor (store (js ?m)) get_products)
              = (Inl unauthorized, ())"
    by (simp add: scenario_defs expired_cookie_server_def)
  have h4: "response_status unauthorized = Some 401" by (simp add: scenario_defs)
  have h5: "expired_cookie_server () (request_interceptor (store (js ?m)) refresh_request)
              = (Inl unauthorized, ())"
    by (simp add: scenario_defs expired_cookie_server_def)
  have h6: "\<not> (is_axios unauthorized \<and>
      (code unauthorized = Some ''ERR_NETWORK'' \<or> err_response unauthorized = None))"
    by (simp add: unauthorized_def)
  have h7: "background (js ?m) = []" by (simp add: scenario_defs)
  note main = refused_refresh_invokes_logout[where A = expired_cookie_server, OF h1 h2 h3 h4 h5 h6 h7]
  let ?sent2 = "[get_products\<lparr>authorization := Some ''Bearer t1''\<rparr>,
                 refresh_request\<lparr>authorization := Some ''Bearer t1''\<rparr>]"
  have run: "snd (api expired_cookie_server ?m get_products) =
     \<lparr>js = stale_js\<lparr>background := [LogoutCall]\<rparr>, world = (), sent = ?sent2\<rparr>"
    using api_refresh_rejected[where A = expired_cookie_server, OF h1 h2 h3 h4 h5]
    by (simp add: scenario_defs Let_def refresh_caught_def)
  have out: "api expired_cookie_server
       \<lparr>js = stale_js\<lparr>background := []\<rparr>, world = (), sent = ?sent2\<rparr> logout_request =
       (Inr (ok (Obj None None)),
        \<lparr>js = stale_js\<lparr>background := []\<rparr>, world = (),
         sent = ?sent2 @ [logout_request\<lparr>authorization := Some ''Bearer t1''\<rparr>]\<rparr>)"
    by (subst api_Inr[where resp = "ok (Obj None None)" and w = "()"])
       (simp_all add: scenario_defs expired_cookie_server_def)
  have after: "run_next expired_cookie_server
       \<lparr>js = stale_js\<lparr>background := [LogoutCall]\<rparr>, world = (), sent = ?sent2\<rparr> =
       \<lparr>js = set_state cleared (stale_js\<lparr>background := []\<rparr>), world = (),
        sent = ?sent2 @ [logout_request\<lparr>authorization := Some ''Bearer t1''\<rparr>]\<rparr>"
    by (simp add: run_next_def logout_def out logout_settled_def)
  from main show ?thesis
    unfolding run after by (simp add: set_state_def cleared_def stale_js_def stale_client_def)
qed


lemma initAuth_catch_store:
  "store (initAuth_catch err st) =
     \<lparr>user = None, accessToken = None, isAuthenticated = False, isLoading = False\<rparr>"
  by (simp add: initAuth_catch_def set_state_def log_console_def Let_def)

lemma initAuth_catch_console:
  "console (initAuth_catch err st) =
     (if isExpectedError err then console st else console st @ [(Error, ''initAuth error:'')])"
  by (simp add: initAuth_catch_def set_state_def log_console_def Let_def)

lemma console_authApi_refresh:
  fixes A :: "'w adapter"
  shows "console (js (snd (authApi_refresh A m))) = console (js m)"
  using console_api[where A = A and m = m and cfg = refresh_request]
  by (auto simp: authApi_refresh_def split: prod.split sum.split)

lemma initAuth_failed:
  fixes A :: "'w adapter"
  assumes "authApi_refresh A m = (Inl err, m1)"
  shows "store (js (initAuth A m)) =
           \<lparr>user = None, accessToken = None, isAuthenticated = False, isLoading = False\<rparr>
       \<and> console (js (initAuth A m)) =
           (if isExpectedError err then console (js m)
            else console (js m) @ [(Error, ''initAuth error:'')])"
  using console_authApi_refresh[where A = A and m = m] assms
  by (simp add: initAuth_def initAuth_catch_store initAuth_catch_console)

lemma isExpectedError_type_error [simp]: "\<not> isExpectedError type_error"
  by (simp add: isExpectedError_def type_error_def)

lemma initAuth_null:
  fixes A :: "'w adapter"
  assumes "authApi_refresh A m = (Inr Null, m1)"
  shows "store (js (initAuth A m)) =
           \<lparr>user = None, accessToken = None, isAuthenticated = False, isLoading = False\<rparr>
       \<and> console (js (initAuth A m)) = console (js m) @ [(Error, ''initAuth error:'')]"
  using console_authApi_refresh[where A = A and m = m] assms
  by (simp add: initAuth_def initAuth_catch_store initAuth_catch_console)

lemma initAuth_not_loading:
  fixes A :: "'w adapter"
  shows "\<not> isLoading (store (js (initAuth A m)))"
  by (simp add: initAuth_def initAuth_catch_store set_state_def
      split: prod.split sum.split body.split)

text \<open>A server that refuses every refresh with 401 makes \<^verbatim>\<open>authApi.refresh\<close> fail with a 401.\<close>

lemma refresh_refused:
  fixes A :: "'w adapter"
  assumes refuse: "\<forall>w c. url c = ''/auth/refresh'' \<longrightarrow>
      (\<exists>e w'. A w c = (Inl e, w') \<and> is_axios e \<and> response_status e = Some 401)"
  shows "\<exists>err m1. authApi_refresh A m = (Inl err, m1) \<and> is_axios err \<and>
           response_status err = Some 401"
proof -
  let ?rc = "request_interceptor (store (js m)) refresh_request"
  have u: "url ?rc = ''/auth/refresh''" by (simp add: refresh_request_def)
  from refuse u obtain e w1 where first: "A (world m) ?rc = (Inl e, w1)"
    and e: "is_axios e" "response_status e = Some 401" by blast
  show ?thesis
  proof (cases "isRefreshing (js m)")
    case True
    from api_in_flight[where A = A, OF True first] e show ?thesis
      by (simp add: authApi_refresh_def response_status_def)
  next
    case False
    from refuse u obtain err w2 where second: "A w1 ?rc = (Inl err, w2)"
      and err: "is_axios err" "response_status err = Some 401" by blast
    have "\<not> retry refresh_request" by simp
    from api_refresh_rejected[where A = A, OF False this first e(2) second] err show ?thesis
      by (simp add: authApi_refresh_def Let_def response_status_def)
  qed
qed

lemma refresh_unreachable:
  fixes A :: "'w adapter"
  assumes first: "A (world m) (request_interceptor (store (js m)) refresh_request) = (Inl e, w1)"
    and e: "is_axios e" "code e = Some ''ERR_NETWORK''" "err_response e = None"
  shows "\<exists>err m1. authApi_refresh A m = (Inl err, m1) \<and> is_axios err \<and>
           code err = Some ''ERR_NETWORK''"
proof -
  have "response_status e \<noteq> Some 401" using e(3) by (simp add: response_status_def)
  from api_not_401[where A = A, OF first this] e show ?thesis
    by (simp add: authApi_refresh_def)
qed



lemma isLoading_refresh_caught [simp]:
  "isLoading (store (refresh_caught st err)) = isLoading (store st)"
  by (simp add: refresh_caught_def set_state_def cleared_def Let_def)

lemma isLoading_api:
  fixes A :: "'w adapter"
  shows "isLoading (store (js (snd (api A m cfg)))) = isLoading (store (js m))"
  by (cases rule: api_shape[where A = A and m = m and cfg = cfg]) simp_all

lemma logout_keeps:
  fixes A :: "'w adapter"
  shows "isLoading (store (js (logout A m))) = isLoading (store (js m))
     \<and> filter (\<lambda>(l, txt). l = Error) (console (js (logout A m)))
         = filter (\<lambda>(l, txt). l = Error) (console (js m))"
  using isLoading_api[where A = A and m = m and cfg = logout_request]
    console_api[where A = A and m = m and cfg = logout_request]
  by (auto simp: logout_def logout_settled_def set_state_def cleared_def log_console_def Let_def
      split: prod.splits sum.splits)

lemma run_next_keeps:
  fixes A :: "'w adapter"
  shows "isLoading (store (js (run_next A m))) = isLoading (store (js m))
     \<and> filter (\<lambda>(l, txt). l = Error) (console (js (run_next A m)))
         = filter (\<lambda>(l, txt). l = Error) (console (js m))
     \<and> (\<not> isAuthenticated (store (js m)) \<longrightarrow> \<not> isAuthenticated (store (js (run_next A m))))"
proof (cases "background (js m)")
  case Nil
  then show ?thesis by (simp add: run_next_def)
next
  case (Cons t ts)
  then have r: "run_next A m = logout A (m\<lparr>js := (js m)\<lparr>background := ts\<rparr>\<rparr>)"
    by (cases t) (simp add: run_next_def)
  show ?thesis
    unfolding r
    using logout_keeps[where A = A and m = "m\<lparr>js := (js m)\<lparr>background := ts\<rparr>\<rparr>"]
      logout_clears[where A = A and m = "m\<lparr>js := (js m)\<lparr>background := ts\<rparr>\<rparr>"]
    by simp
qed

text \<open>
  Claim C8. \<^verbatim>\<open>initAuth\<close> always ends with \<^verbatim>\<open>isLoading = false\<close>. When the refresh fails,
  the session is unauthenticated and not loading, and \<^verbatim>\<open>console.error\<close> is called exactly
  when the error is not an expected one. A server that answers every refresh with 401, and
  a server that cannot be reached, both give an expected error: nothing is logged. The
  logout call that the interceptor may have started on the way changes none of this when
  it finishes: it logs no error, leaves \<^verbatim>\<open>isLoading\<close> false and the session unauthenticated.
\<close>

theorem initAuth_never_stays_loading:
  fixes A :: "'w adapter"
  shows "\<not> isLoading (store (js (initAuth A m)))
    \<and> (\<forall>err m1. authApi_refresh A m = (Inl err, m1) \<longrightarrow>
          store (js (initAuth A m)) =
            \<lparr>user = None, accessToken = None, isAuthenticated = False, isLoading = False\<rparr>
          \<and> console (js (initAuth A m)) =
              (if isExpectedError err then console (js m)
               else console (js m) @ [(Error, ''initAuth error:'')]))
    \<and> (\<forall>m1. authApi_refresh A m = (Inr Null, m1) \<longrightarrow>
          store (js (initAuth A m)) =
            \<lparr>user = None, accessToken = None, isAuthenticated = False, isLoading = False\<rparr>
          \<and> console (js (initAuth A m)) = console (js m) @ [(Error, ''initAuth error:'')])
    \<and> ((\<forall>w c. url c = ''/auth/refresh'' \<longrightarrow>
            (\<exists>e w'. A w c = (Inl e, w') \<and> is_axios e \<and> response_status e = Some 401)) \<longrightarrow>
          store (js (initAuth A m)) =
            \<lparr>user = None, accessToken = None, isAuthenticated = False, isLoading = False\<rparr>
          \<and> console (js (initAuth A m)) = console (js m))
    \<and> ((\<exists>e w'. A (world m) (request_interceptor (store (js m)) refresh_request) = (Inl e, w')
            \<and> is_axios e \<and> code e = Some ''ERR_NETWORK'' \<and> err_response e = None) \<longrightarrow>
          store (js (initAuth A m)) =
            \<lparr>user = None, accessToken = None, isAuthenticated = False, isLoading = False\<rparr>
          \<and> console (js (initAuth A m)) = console (js m))
    \<and> \<not> isLoading (store (js (run_next A (initAuth A m))))
    \<and> filter (\<lambda>(l, txt). l = Error) (console (js (run_next A (initAuth A m))))
        = filter (\<lambda>(l, txt). l = Error) (console (js (initAuth A m)))
    \<and> (\<not> isAuthenticated (store (js (initAuth A m))) \<longrightarrow>
          \<not> isAuthenticated (store (js (run_next A (initAuth A m)))))"
proof (intro conjI allI impI)
  show "\<not> isLoading (store (js (initAuth A m)))" by (rule initAuth_not_loading)
  show "\<not> isLoading (store (js (run_next A (initAuth A m))))"
    using run_next_keeps[where A = A and m = "initAuth A m"] initAuth_not_loading[where A = A]
    by simp
  show "filter (\<lambda>(l, txt). l = Error) (console (js (run_next A (initAuth A m))))
        = filter (\<lambda>(l, txt). l = Error) (console (js (initAuth A m)))"
    using run_next_keeps[where A = A and m = "initAuth A m"] by simp
  show "\<not> isAuthenticated (store (js (run_next A (initAuth A m))))"
    if "\<not> isAuthenticated (store (js (initAuth A m)))"
    using run_next_keeps[where A = A and m = "initAuth A m"] that by simp
next
  fix err m1 assume h: "authApi_refresh A m = (Inl err, m1)"
  from initAuth_failed[where A = A, OF h]
  show "store (js (initAuth A m)) =
            \<lparr>user = None, accessToken = None, isAuthenticated = False, isLoading = False\<rparr>"
    and "console (js (initAuth A m)) =
              (if isExpectedError err then console (js m)
               else console (js m) @ [(Error, ''initAuth error:'')])" by simp_all
next
  fix m1 assume h: "authApi_refresh A m = (Inr Null, m1)"
  from initAuth_null[where A = A, OF h]
  show "store (js (initAuth A m)) =
            \<lparr>user = None, accessToken = None, isAuthenticated = False, isLoading = False\<rparr>"
    and "console (js (initAuth A m)) = console (js m) @ [(Error, ''initAuth error:'')]"
    by simp_all
next
  assume refuse: "\<forall>w c. url c = ''/auth/refresh'' \<longrightarrow>
            (\<exists>e w'. A w c = (Inl e, w') \<and> is_axios e \<and> response_status e = Some 401)"
  from refresh_refused[where A = A and m = m, OF refuse] obtain err m1
    where h: "authApi_refresh A m = (Inl err, m1)" and "isExpectedError err"
    by (auto simp: isExpectedError_def)
  with initAuth_failed[where A = A, OF h]
  show "store (js (initAuth A m)) =
            \<lparr>user = None, accessToken = None, isAuthenticated = False, isLoading = False\<rparr>"
    and "console (js (initAuth A m)) = console (js m)" by simp_all
next
  assume "\<exists>e w'. A (world m) (request_interceptor (store (js m)) refresh_request) = (Inl e, w')
            \<and> is_axios e \<and> code e = Some ''ERR_NETWORK'' \<and> err_response e = None"
  then obtain e w' where
    "A (world m) (request_interceptor (store (js m)) refresh_request) = (Inl e, w')"
    "is_axios e" "code e = Some ''ERR_NETWORK''" "err_response e = None" by blast
  from refresh_unreachable[where A = A, OF this] obtain err m1
    where h: "authApi_refresh A m = (Inl err, m1)" and "isExpectedError err"
    by (auto simp: isExpectedError_def)
  with initAuth_failed[where A = A, OF h]
  show "store (js (initAuth A m)) =
            \<lparr>user = None, accessToken = None, isAuthenticated = False, isLoading = False\<rparr>"
    and "console (js (initAuth A m)) = console (js m)" by simp_all
qed

theorem initAuth_witness:
  "store (js (initAuth expired_cookie_server (fresh_client ()))) =
        \<lparr>user = None, accessToken = None, isAuthenticated = False, isLoading = False\<rparr>
   \<and> console (js (initAuth expired_cookie_server (fresh_client ()))) = []
   \<and> unreachable_server (world (fresh_client ()))
        (request_interceptor (store (js (fresh_client ()))) refresh_request)
        = (Inl network_error, ())
   \<and> store (js (initAuth unreachable_server (fresh_client ()))) =
        \<lparr>user = None, accessToken = None, isAuthenticated = False, isLoading = False\<rparr>
   \<and> console (js (initAuth unreachable_server (fresh_client ()))) = []
   \<and> authApi_refresh broken_server (fresh_client ()) =
        (Inl (server_error\<lparr>config := Some refresh_request\<rparr>),
         (fresh_client ())\<lparr>sent := [refresh_request]\<rparr>)
   \<and> \<not> isExpectedError (server_error\<lparr>config := Some refresh_request\<rparr>)
   \<and> store (js (initAuth broken_server (fresh_client ()))) =
        \<lparr>user = None, accessToken = None, isAuthenticated = False, isLoading = False\<rparr>
   \<and> console (js (initAuth broken_server (fresh_client ()))) = [(Error, ''initAuth error:'')]
   \<and> \<not> isLoading (store (js (run_next expired_cookie_server
                                   (initAuth expired_cookie_server (fresh_client ())))))
   \<and> \<not> isAuthenticated (store (js (run_next expired_cookie_server
                                   (initAuth expired_cookie_server (fresh_client ())))))
   \<and> filter (\<lambda>(l, txt). l = Error)
        (console (js (run_next expired_cookie_server
                        (initAuth expired_cookie_server (fresh_client ()))))) = []"
proof -
  have refuse: "\<forall>w c. url c = ''/auth/refresh'' \<longrightarrow>
      (\<exists>e w'. expired_cookie_server w c = (Inl e, w') \<and> is_axios e \<and>
               response_status e = Some 401)"
    by (simp add: expired_cookie_server_def unauthorized_def response_status_def)
  have down: "unreachable_server (world (fresh_client ()))
        (request_interceptor (store (js (fresh_client ()))) refresh_request)
        = (Inl network_error, ())"
    by (simp add: unreachable_server_def)
  have net: "is_axios network_error \<and> code network_error = Some ''ERR_NETWORK''
      \<and> err_response network_error = None"
    by (simp add: network_error_def)
  have broken: "authApi_refresh broken_server (fresh_client ()) =
        (Inl (server_error\<lparr>config := Some refresh_request\<rparr>),
         (fresh_client ())\<lparr>sent := [refresh_request]\<rparr>)"
    by (simp add: authApi_refresh_def
          api_not_401[where A = broken_server and e = server_error and w = "()"]
          broken_server_def scenario_defs)
  have unexpected: "\<not> isExpectedError (server_error\<lparr>config := Some refresh_request\<rparr>)"
    by (simp add: isExpectedError_def server_error_def response_status_def)
  have empty: "console (js (fresh_client ())) = []" by (simp add: fresh_client_def)
  from initAuth_never_stays_loading[where A = expired_cookie_server and m = "fresh_client ()"]
    initAuth_never_stays_loading[where A = unreachable_server and m = "fresh_client ()"]
    initAuth_never_stays_loading[where A = broken_server and m = "fresh_client ()"]
    refuse down net broken unexpected empty
  show ?thesis by (auto simp del: split_paired_All split_paired_Ex)
qed

section \<open>Properties of interleaved requests\<close>


lemma sum_list_remove_nth:
  fixes f :: "'a \<Rightarrow> nat"
  assumes "i < length xs"
  shows "sum_list (map f (remove_nth i xs)) + f (xs ! i) = sum_list (map f xs)"
proof -
  have "xs = take i xs @ xs ! i # drop (Suc i) xs" using assms by (rule id_take_nth_drop)
  then have "sum_list (map f xs) = sum_list (map f (take i xs @ xs ! i # drop (Suc i) xs))"
    by simp
  then show ?thesis by (simp add: remove_nth_def)
qed

lemma set_remove_nth: "set (remove_nth i xs) \<subseteq> set xs"
  unfolding remove_nth_def using set_take_subset[of i xs] set_drop_subset[of "Suc i" xs] by auto

lemma holders_issue [simp]: "holders (issue cfg k c) = holders c + frames k"
  by (simp add: holders_def issue_def)

lemma cjs_issue [simp]: "cjs (issue cfg k c) = cjs c"
  by (simp add: issue_def)

lemma ready_issue [simp]: "ready (issue cfg k c) = ready c"
  by (simp add: issue_def)

lemma inflight_issue [simp]:
  "inflight (issue cfg k c) = inflight c @ [(request_interceptor (store (cjs c)) cfg, k)]"
  by (simp add: issue_def)

lemma holders_cjs [simp]: "holders (c\<lparr>cjs := st\<rparr>) = holders c"
  by (simp add: holders_def)

lemma launch_facts:
  "cjs (launch ts c) = cjs c \<and> holders (launch ts c) = holders c \<and> ready (launch ts c) = ready c
   \<and> (\<exists>more. inflight (launch ts c) = inflight c @ more \<and> (\<forall>(cfg, k)\<in>set more. \<not> awaits_refresh k))"
proof (induction ts c rule: launch.induct)
  case (1 c)
  then show ?case by simp
next
  case (2 ts c)
  then show ?case by auto
qed

lemma launch_background_facts:
  "cjs (launch_background c) = (cjs c)\<lparr>background := []\<rparr>
   \<and> holders (launch_background c) = holders c
   \<and> ready (launch_background c) = ready c
   \<and> (\<exists>more. inflight (launch_background c) = inflight c @ more
         \<and> (\<forall>(cfg, k)\<in>set more. \<not> awaits_refresh k))"
  using launch_facts[of "background (cjs c)" "c\<lparr>cjs := (cjs c)\<lparr>background := []\<rparr>\<rparr>"]
  by (simp add: launch_background_def)

lemma frames_0: "frames k = 0 \<longleftrightarrow> \<not> awaits_refresh k"
  by (cases k) simp_all

lemma inv_initial: "flag_invariant (initial s)"
  by (simp add: flag_invariant_def initial_def holders_def)

lemma inv_issue:
  assumes "flag_invariant c" and "frames k = 0"
  shows "flag_invariant (issue cfg k c)"
  using assms by (auto simp: flag_invariant_def frames_0)

lemma inv_settle:
  assumes "flag_invariant c" and "i < length (inflight c)" and "inflight c ! i = (cfg, k)"
  shows "flag_invariant (settle cfg k out (c\<lparr>inflight := remove_nth i (inflight c)\<rparr>))"
proof -
  let ?c0 = "c\<lparr>inflight := remove_nth i (inflight c)\<rparr>"
  have h: "holders ?c0 + frames k = holders c"
    using sum_list_remove_nth[OF assms(2), of "\<lambda>(cfg, k). frames k"] assms(3)
    by (simp add: holders_def)
  have urls: "\<forall>(cfg, k)\<in>set (inflight ?c0). awaits_refresh k \<longrightarrow> url cfg = ''/auth/refresh''"
    using assms(1) set_remove_nth[of i "inflight c"] by (auto simp: flag_invariant_def)
  have bg: "background (cjs c) = []" using assms(1) by (simp add: flag_invariant_def)
  have hc: "holders c = (if isRefreshing (cjs c) then 1 else 0)" using assms(1) by (simp add: flag_invariant_def)
  show ?thesis
  proof (cases out)
    case (Inr resp)
    then show ?thesis using h urls bg hc by (simp add: settle_def flag_invariant_def holders_def)
  next
    case (Inl e)
    show ?thesis
    proof (cases "handle_rejected (cjs c) (e\<lparr>config := Some cfg\<rparr>)")
      case (Reject error st)
      then have "st = cjs c" by (rule handle_rejected_Reject)
      with Reject Inl show ?thesis using h urls bg hc by (simp add: settle_def flag_invariant_def holders_def)
    next
      case (Refresh orig st)
      then have flag: "\<not> isRefreshing (cjs c)" and st: "st = (cjs c)\<lparr>isRefreshing := True\<rparr>"
        by (simp_all add: handle_rejected_Refresh)
      from flag hc h have z: "holders ?c0 = 0" "frames k = 0" by simp_all
      have hst: "holders (?c0\<lparr>cjs := st\<rparr>) = holders ?c0" by (simp add: holders_def)
      show ?thesis using Refresh Inl z hst urls bg st
        by (auto simp: settle_def flag_invariant_def refresh_request_def)
    qed
  qed
qed

lemma refresh_caught_flag [simp]: "\<not> isRefreshing (refresh_caught st err)"
  by (simp add: refresh_caught_def set_state_def Let_def)

lemma inv_after_catch:
  assumes "holders c0 = 0" and "frames k = 0"
    and urls: "\<forall>(cfg, k)\<in>set (inflight c0). awaits_refresh k \<longrightarrow> url cfg = ''/auth/refresh''"
  shows "flag_invariant (launch_background (c0\<lparr>cjs := refresh_caught st err, ready := ready c0 @ [(k, Inl err)]\<rparr>))"
proof -
  let ?c1 = "c0\<lparr>cjs := refresh_caught st err, ready := ready c0 @ [(k, Inl err)]\<rparr>"
  have h1: "holders ?c1 = 0" using assms(1,2) by (simp add: holders_def)
  from launch_background_facts[of ?c1] obtain more where
    c: "cjs (launch_background ?c1) = (refresh_caught st err)\<lparr>background := []\<rparr>"
    and h: "holders (launch_background ?c1) = holders ?c1"
    and i: "inflight (launch_background ?c1) = inflight c0 @ more"
    and m: "\<forall>(cfg, k)\<in>set more. \<not> awaits_refresh k" by auto
  show ?thesis unfolding flag_invariant_def using c h h1 i m urls by auto
qed

lemma inv_resume:
  assumes "flag_invariant c" and "j < length (ready c)" and "ready c ! j = (k, out)"
  shows "flag_invariant (resume k out (c\<lparr>ready := remove_nth j (ready c)\<rparr>))"
proof -
  let ?c0 = "c\<lparr>ready := remove_nth j (ready c)\<rparr>"
  have h: "holders ?c0 + frames k = holders c"
    using sum_list_remove_nth[OF assms(2), of "\<lambda>(k, out). frames k"] assms(3)
    by (simp add: holders_def)
  have urls: "\<forall>(cfg, k)\<in>set (inflight ?c0). awaits_refresh k \<longrightarrow> url cfg = ''/auth/refresh''"
    using assms(1) by (auto simp: flag_invariant_def)
  have bg: "background (cjs c) = []" using assms(1) by (simp add: flag_invariant_def)
  have hc: "holders c = (if isRefreshing (cjs c) then 1 else 0)" using assms(1) by (simp add: flag_invariant_def)
  show ?thesis
  proof (cases k)
    case App
    then show ?thesis using h urls bg hc by (simp add: flag_invariant_def holders_def)
  next
    case AwaitLogout
    then show ?thesis using h urls bg hc
      by (simp add: flag_invariant_def holders_def logout_settled_def set_state_def log_console_def Let_def
          split: sum.split)
  next
    case (AwaitRefresh orig k')
    with h hc have z: "holders ?c0 = 0" "frames k' = 0"
      by (simp_all split: if_splits)
    show ?thesis
    proof (cases out)
      case (Inl err)
      with AwaitRefresh show ?thesis using inv_after_catch[OF z urls] by simp
    next
      case (Inr resp)
      show ?thesis
      proof (cases "refresh_resolved (cjs ?c0) orig resp")
        case (Threw err st)
        with AwaitRefresh Inr show ?thesis using inv_after_catch[OF z urls] by simp
      next
        case (Retry orig' st)
        then have "\<not> isRefreshing st" and "background st = background (cjs c)"
          by (auto simp: refresh_resolved_def Let_def split: body.splits)
        with AwaitRefresh Inr Retry z urls bg show ?thesis
          by (auto simp: flag_invariant_def holders_def frames_0)
      qed
    qed
  qed
qed

lemma inv_step:
  assumes "flag_invariant c" and "step ev c = Some c'"
  shows "flag_invariant c'"
proof (cases ev)
  case (Call cfg)
  with assms show ?thesis by (auto intro: inv_issue)
next
  case CallLogout
  with assms show ?thesis by (auto intro: inv_issue)
next
  case (Settle i out)
  with assms show ?thesis by (auto split: if_splits prod.splits intro: inv_settle)
next
  case (Resume j)
  with assms show ?thesis by (auto split: if_splits prod.splits intro: inv_resume)
qed

lemma reachable_inv: "reachable c \<Longrightarrow> flag_invariant c"
  by (induction rule: reachable.induct) (auto intro: inv_initial inv_step)

lemma run_reachable: "reachable c \<Longrightarrow> run evs c = Some c' \<Longrightarrow> reachable c'"
proof (induction evs arbitrary: c)
  case Nil
  then show ?case by simp
next
  case (Cons ev evs)
  then show ?case by (auto split: option.splits intro: reachable.reach_step)
qed

lemma length_filter_le_sum:
  fixes f :: "'a \<Rightarrow> nat"
  assumes "\<And>x. x \<in> set xs \<Longrightarrow> P x \<Longrightarrow> 1 \<le> f x"
  shows "length (filter P xs) \<le> sum_list (map f xs)"
  using assms
proof (induction xs)
  case Nil
  then show ?case by simp
next
  case (Cons a xs)
  have ih: "length (filter P xs) \<le> sum_list (map f xs)" using Cons by simp
  show ?case
  proof (cases "P a")
    case True
    then have "1 \<le> f a" using Cons.prems by simp
    with ih True show ?thesis by simp
  next
    case False
    with ih show ?thesis by simp
  qed
qed

lemma frames_awaits: "awaits_refresh k \<Longrightarrow> 1 \<le> frames k"
  by (cases k) simp_all

lemma handler_refreshes_le_holders: "length (handler_refreshes c) \<le> holders c"
proof -
  have "length (filter (\<lambda>(cfg, k). awaits_refresh k) (inflight c))
      \<le> sum_list (map (\<lambda>(cfg, k). frames k) (inflight c))"
    by (rule length_filter_le_sum) (auto dest: frames_awaits)
  then show ?thesis by (simp add: handler_refreshes_def holders_def)
qed



lemmas trace_defs = initial_def issue_def settle_def remove_nth_def handle_rejected_def
  refresh_resolved_def refresh_caught_def launch_background_def logout_settled_def
  set_state_def cleared_def

text \<open>
  Claim C4, as stated, fails for the refresh calls of the whole client: \<^verbatim>\<open>initAuth\<close>
  calls the refresh endpoint without looking at the flag, so its call and the call of a
  401 handler can be in flight together. At start-up \<^verbatim>\<open>initAuth\<close> sends its refresh; a
  login attempt is sent and answered 401 before the refresh settles; the handler finds
  the flag clear and sends a second refresh.
\<close>

theorem two_refreshes_in_flight_counterexample:
  "run [Call refresh_request, Call login_request, Settle 1 (Inl unauthorized)]
       (initial initial_session) = Some init_and_login
   \<and> reachable init_and_login
   \<and> length (refreshes_in_flight init_and_login) = 2"
proof -
  have r: "run [Call refresh_request, Call login_request, Settle 1 (Inl unauthorized)]
          (initial initial_session) = Some init_and_login"
    by (simp add: trace_defs init_and_login_def scenario_defs login_request_def)
  from run_reachable[OF reachable.reach_initial r] r
  show ?thesis by (simp add: refreshes_in_flight_def init_and_login_def refresh_request_def)
qed

text \<open>
  Claim C4, amended. In every reachable state of the interleaved client at most one
  refresh call that a 401 handler has made and awaits (its own
  \<^verbatim>\<open>api.post('/auth/refresh')\<close>) is in flight, and the flag is set while it is. The
  handler tests and sets the flag in one uninterrupted segment (\<open>handle_rejected\<close>): it
  suspends on a refresh call only if it found the flag clear, and leaves it set; a handler
  that finds the flag set makes no refresh call and changes nothing. A refresh request
  that application code sends itself, as \<^verbatim>\<open>initAuth\<close> does, is outside this guard.
\<close>

theorem one_handler_refresh_in_flight:
  assumes "reachable c"
  shows "length (handler_refreshes c) \<le> 1
       \<and> (handler_refreshes c \<noteq> [] \<longrightarrow> isRefreshing (cjs c))
       \<and> (\<forall>(cfg, k)\<in>set (handler_refreshes c). url cfg = ''/auth/refresh'')
       \<and> (\<forall>st e orig st'. handle_rejected st e = Refresh orig st' \<longrightarrow>
             \<not> isRefreshing st \<and> isRefreshing st')
       \<and> (\<forall>st e. isRefreshing st \<longrightarrow> (\<exists>e'. handle_rejected st e = Reject e' st))"
proof -
  from reachable_inv[OF assms] have i: "flag_invariant c" .
  have le: "length (handler_refreshes c) \<le> holders c" by (rule handler_refreshes_le_holders)
  from i le have one: "length (handler_refreshes c) \<le> 1"
    by (simp add: flag_invariant_def split: if_splits)
  have flag: "handler_refreshes c \<noteq> [] \<longrightarrow> isRefreshing (cjs c)"
  proof (rule impI, rule ccontr)
    assume ne: "handler_refreshes c \<noteq> []" and "\<not> isRefreshing (cjs c)"
    with i le have "length (handler_refreshes c) = 0" by (simp add: flag_invariant_def)
    with ne show False by simp
  qed
  from i have urls: "\<forall>(cfg, k)\<in>set (handler_refreshes c). url cfg = ''/auth/refresh''"
    by (auto simp: flag_invariant_def handler_refreshes_def)
  have enter: "\<forall>st e orig st'. handle_rejected st e = Refresh orig st' \<longrightarrow>
             \<not> isRefreshing st \<and> isRefreshing st'"
    by (simp add: handle_rejected_Refresh)
  have guarded: "\<forall>st e. isRefreshing st \<longrightarrow> (\<exists>e'. handle_rejected st e = Reject e' st)"
    by (auto simp: handle_rejected_def Let_def split: option.splits)
  from one flag urls enter guarded show ?thesis by blast
qed

theorem one_handler_refresh_witness:
  "reachable rejected_during_refresh
   \<and> length (handler_refreshes rejected_during_refresh) = 1
   \<and> isRefreshing (cjs rejected_during_refresh)"
proof -
  have r: "run [Call get_products, Call get_me, Settle 0 (Inl unauthorized),
                Settle 0 (Inl unauthorized)] (initial (store stale_js))
           = Some rejected_during_refresh"
    by (simp add: trace_defs rejected_during_refresh_def scenario_defs get_me_def)
  have reach: "reachable rejected_during_refresh"
    by (rule run_reachable[OF reachable.reach_initial r])
  have one: "length (handler_refreshes rejected_during_refresh) = 1"
    by (simp add: handler_refreshes_def rejected_during_refresh_def)
  from one_handler_refresh_in_flight[OF reach] reach one show ?thesis
    by (cases "handler_refreshes rejected_during_refresh") simp_all
qed

text \<open>
  Claim C5, as stated, fails: a request answered 401 while a refresh is in flight is not
  retried when the flag clears. Two requests leave with the stale token. The 401 of
  \<^verbatim>\<open>/products\<close> starts the refresh; the 401 of \<^verbatim>\<open>/users/me\<close> arrives while the flag is
  set and is rejected to its caller. The refresh then succeeds, the flag clears and
  \<^verbatim>\<open>/products\<close> is retried with success. When everything has settled, \<^verbatim>\<open>/users/me\<close>
  has been sent once and its caller holds the 401.
\<close>

theorem no_retry_after_flag_clears_counterexample:
  "run [Call get_products, Call get_me, Settle 0 (Inl unauthorized),
        Settle 0 (Inl unauthorized)] (initial (store stale_js))
     = Some rejected_during_refresh
   \<and> isRefreshing (cjs rejected_during_refresh)
   \<and> run [Resume 0, Settle 0 (Inr (ok (Obj (Some ''t2'') (Some alice)))), Resume 0,
          Settle 0 (Inr (ok (Obj None None))), Resume 0] rejected_during_refresh
     = Some all_settled
   \<and> \<not> isRefreshing (cjs all_settled)
   \<and> inflight all_settled = [] \<and> ready all_settled = []
   \<and> map url (issued all_settled) = [''/products'', ''/users/me'', ''/auth/refresh'', ''/products'']
   \<and> delivered all_settled =
       [Inl (unauthorized\<lparr>config :=
               Some (get_me\<lparr>authorization := Some ''Bearer t1'', retry := True\<rparr>)\<rparr>),
        Inr (ok (Obj None None))]"
proof -
  have r1: "run [Call get_products, Call get_me, Settle 0 (Inl unauthorized),
                Settle 0 (Inl unauthorized)] (initial (store stale_js))
           = Some rejected_during_refresh"
    by (simp add: trace_defs rejected_during_refresh_def scenario_defs get_me_def)
  have r2: "run [Resume 0, Settle 0 (Inr (ok (Obj (Some ''t2'') (Some alice)))), Resume 0,
          Settle 0 (Inr (ok (Obj None None))), Resume 0] rejected_during_refresh
     = Some all_settled"
    by (simp add: trace_defs rejected_during_refresh_def all_settled_def scenario_defs get_me_def)
  show ?thesis
    unfolding r1 r2
    by (simp add: rejected_during_refresh_def all_settled_def scenario_defs get_me_def)
qed

text \<open>
  Claim C5, amended. A request without the retry mark that is answered 401 while the
  refresh-in-flight flag is set is marked and rejected at once with its own error. (The
  flag is set exactly while a 401 handler awaits its refresh call; a refresh request that
  \<^verbatim>\<open>initAuth\<close> sent does not set it.) Run by itself, the call
  \<^verbatim>\<open>api(cfg)\<close> sends the request, makes no refresh call and no retry, and leaves the
  client state as it was. Among interleaved requests, the step in which the 401 arrives
  only hands the rejection to the awaiter: nothing is sent and nothing is left behind
  that could retry the request when the flag clears.
\<close>

theorem unauthorized_during_refresh_is_rejected:
  fixes A :: "'w adapter"
  shows "(isRefreshing (js m) \<and> \<not> retry cfg
          \<and> A (world m) (request_interceptor (store (js m)) cfg) = (Inl e, w)
          \<and> response_status e = Some 401 \<longrightarrow>
            api A m cfg =
              (Inl (e\<lparr>config := Some ((request_interceptor (store (js m)) cfg)\<lparr>retry := True\<rparr>)\<rparr>),
               m\<lparr>world := w, sent := sent m @ [request_interceptor (store (js m)) cfg]\<rparr>))
       \<and> (i < length (inflight c) \<and> inflight c ! i = (cfg', k) \<and> isRefreshing (cjs c)
          \<and> \<not> retry cfg' \<and> response_status e' = Some 401 \<longrightarrow>
            step (Settle i (Inl e')) c =
              Some (c\<lparr>inflight := remove_nth i (inflight c),
                      ready := ready c @ [(k, Inl (e'\<lparr>config := Some (cfg'\<lparr>retry := True\<rparr>)\<rparr>))]\<rparr>))"
proof (intro conjI impI)
  assume h: "isRefreshing (js m) \<and> \<not> retry cfg
          \<and> A (world m) (request_interceptor (store (js m)) cfg) = (Inl e, w)
          \<and> response_status e = Some 401"
  then have flag: "isRefreshing (js m)"
    and orig: "A (world m) (request_interceptor (store (js m)) cfg) = (Inl e, w)" by simp_all
  from api_in_flight[where A = A, OF flag orig] h
  show "api A m cfg =
              (Inl (e\<lparr>config := Some ((request_interceptor (store (js m)) cfg)\<lparr>retry := True\<rparr>)\<rparr>),
               m\<lparr>world := w, sent := sent m @ [request_interceptor (store (js m)) cfg]\<rparr>)"
    by simp
next
  assume h: "i < length (inflight c) \<and> inflight c ! i = (cfg', k) \<and> isRefreshing (cjs c)
          \<and> \<not> retry cfg' \<and> response_status e' = Some 401"
  then have "handle_rejected (cjs c) (e'\<lparr>config := Some cfg'\<rparr>)
      = Reject (e'\<lparr>config := Some (cfg'\<lparr>retry := True\<rparr>)\<rparr>) (cjs c)"
    by (simp add: handle_rejected_in_flight[where c = cfg'])
  with h show "step (Settle i (Inl e')) c =
              Some (c\<lparr>inflight := remove_nth i (inflight c),
                      ready := ready c @ [(k, Inl (e'\<lparr>config := Some (cfg'\<lparr>retry := True\<rparr>)\<rparr>))]\<rparr>)"
    by (simp add: settle_def)
qed

theorem unauthorized_during_refresh_witness:
  "api expired_cookie_server
      ((stale_client ())\<lparr>js := stale_js\<lparr>isRefreshing := True\<rparr>\<rparr>) get_products =
     (Inl (unauthorized\<lparr>config := Some (get_products\<lparr>authorization := Some ''Bearer t1'',
                                                        retry := True\<rparr>)\<rparr>),
      (stale_client ())\<lparr>js := stale_js\<lparr>isRefreshing := True\<rparr>,
                          sent := [get_products\<lparr>authorization := Some ''Bearer t1''\<rparr>]\<rparr>)
   \<and> step (Settle 0 (Inl unauthorized)) refresh_in_flight = Some rejected_during_refresh"
proof -
  let ?m = "(stale_client ())\<lparr>js := stale_js\<lparr>isRefreshing := True\<rparr>\<rparr>"
  have h1: "isRefreshing (js ?m) \<and> \<not> retry get_products
      \<and> expired_cookie_server (world ?m) (request_interceptor (store (js ?m)) get_products)
              = (Inl unauthorized, ())
      \<and> response_status unauthorized = Some 401"
    by (simp add: scenario_defs expired_cookie_server_def)
  have h2: "0 < length (inflight refresh_in_flight)
      \<and> inflight refresh_in_flight ! 0 = (get_me\<lparr>authorization := Some ''Bearer t1''\<rparr>, App)
      \<and> isRefreshing (cjs refresh_in_flight)
      \<and> \<not> retry (get_me\<lparr>authorization := Some ''Bearer t1''\<rparr>)
      \<and> response_status unauthorized = Some 401"
    by (simp add: refresh_in_flight_def get_me_def scenario_defs)
  note both = unauthorized_during_refresh_is_rejected[where A = expired_cookie_server
      and m = ?m and cfg = get_products and e = unauthorized and w = "()"
      and c = refresh_in_flight and i = 0
      and cfg' = "get_me\<lparr>authorization := Some ''Bearer t1''\<rparr>" and k = App
      and e' = unauthorized]
  from both[THEN conjunct1, rule_format, OF h1] both[THEN conjunct2, rule_format, OF h2]
  show ?thesis
    by (simp add: scenario_defs refresh_in_flight_def rejected_during_refresh_def get_me_def
        remove_nth_def)
qed

section \<open>Properties of the server\<close>


lemma userWithoutPassword:
  "rest_without ''password'' (own_properties u) =
     [(''id'', JNumber (entity_id u)), (''email'', JString (entity_email u)),
      (''createdAt'', JDate (createdAt u))]"
  by (simp add: rest_without_def own_properties_def)

lemma cookie_headers_json [simp]: "cookie_headers (json obj res) = cookie_headers res"
  by (simp add: json_def)

lemma json_body_json [simp]: "json_body (json obj res) = Some obj"
  by (simp add: json_def)

lemma register_Inr:
  assumes "register d db registerDto res = Inr (result, res', db')"
  shows "findByEmail d db (dto_email registerDto) = None
    \<and> db' = snd (create d db (dto_email registerDto) (bcrypt_hash d (dto_password registerDto) 10))
    \<and> (let u = fst (create d db (dto_email registerDto) (bcrypt_hash d (dto_password registerDto) 10));
            p = \<lparr>sub = entity_id u, payload_email = entity_email u\<rparr>
        in result = token_and_user (sign d p None) (rest_without ''password'' (own_properties u))
         \<and> res' = cookie ''refresh_token''
                    (sign d p (Some \<lparr>secret = JWT_REFRESH_SECRET d, expiresIn = ''7d''\<rparr>))
                    refresh_cookie_options res)"
  using assms
  by (auto simp: register_def Let_def split: option.splits prod.splits)

lemma login_Inr:
  assumes "login d db loginDto res = Inr (result, res')"
  shows "\<exists>u. findByEmail d db (dto_email loginDto) = Some u
    \<and> bcrypt_compare d (dto_password loginDto) (password u)
    \<and> result = token_and_user (sign d \<lparr>sub = entity_id u, payload_email = entity_email u\<rparr> None)
                 (rest_without ''password'' (own_properties u))
    \<and> res' = cookie ''refresh_token''
               (sign d \<lparr>sub = entity_id u, payload_email = entity_email u\<rparr>
                  (Some \<lparr>secret = JWT_REFRESH_SECRET d, expiresIn = ''7d''\<rparr>))
               refresh_cookie_options res"
  using assms
  by (auto simp: login_def Let_def split: option.splits if_splits)

lemma refresh_Inr:
  assumes "refresh d db ck = Inr result"
  shows "\<exists>t p u. ck = Some t \<and> verifyAsync d t (JWT_REFRESH_SECRET d) = Some p
    \<and> findById d db (sub p) = Some u
    \<and> result = token_and_user (sign d \<lparr>sub = entity_id u, payload_email = entity_email u\<rparr> None)
                 [(''id'', JNumber (entity_id u)), (''email'', JString (entity_email u))]"
  using assms
  by (auto simp: refresh_def Let_def split: option.splits if_splits)

text \<open>
  Claim C9. A successful register and a successful login answer with exactly one new
  cookie header: \<^verbatim>\<open>refresh_token\<close>, with \<^verbatim>\<open>httpOnly: true\<close>, \<^verbatim>\<open>sameSite: 'lax'\<close> and
  \<^verbatim>\<open>path: '/'\<close>, whose value is the token signed for the user with
  \<^verbatim>\<open>expiresIn: '7d'\<close> under the refresh secret. The seven days are the lifetime of the
  signed token, which the server checks on refresh; the cookie itself is given no
  \<^verbatim>\<open>maxAge\<close> and no \<^verbatim>\<open>expires\<close>.
\<close>

theorem register_and_login_set_refresh_cookie:
  "(controller_register d db registerDto res = Inr (res', db') \<longrightarrow>
      (let u = fst (create d db (dto_email registerDto)
                      (bcrypt_hash d (dto_password registerDto) 10))
       in cookie_headers res' = cookie_headers res @
           [SetCookie ''refresh_token''
              (sign d \<lparr>sub = entity_id u, payload_email = entity_email u\<rparr>
                 (Some \<lparr>secret = JWT_REFRESH_SECRET d, expiresIn = ''7d''\<rparr>))
              \<lparr>httpOnly = Some True, secure = Some False, sameSite = Some ''lax'',
               path = Some ''/'', maxAge = None, expires = None\<rparr>]))
   \<and> (controller_login d db loginDto res = Inr res'' \<longrightarrow>
      (\<exists>u. findByEmail d db (dto_email loginDto) = Some u \<and>
        cookie_headers res'' = cookie_headers res @
           [SetCookie ''refresh_token''
              (sign d \<lparr>sub = entity_id u, payload_email = entity_email u\<rparr>
                 (Some \<lparr>secret = JWT_REFRESH_SECRET d, expiresIn = ''7d''\<rparr>))
              \<lparr>httpOnly = Some True, secure = Some False, sameSite = Some ''lax'',
               path = Some ''/'', maxAge = None, expires = None\<rparr>]))"
proof (intro conjI impI)
  assume "controller_register d db registerDto res = Inr (res', db')"
  then obtain result r where reg: "register d db registerDto res = Inr (result, r, db')"
    and r: "res' = json result r"
    by (auto simp: controller_register_def split: sum.splits)
  from register_Inr[OF reg] r
  show "let u = fst (create d db (dto_email registerDto)
                      (bcrypt_hash d (dto_password registerDto) 10))
       in cookie_headers res' = cookie_headers res @
           [SetCookie ''refresh_token''
              (sign d \<lparr>sub = entity_id u, payload_email = entity_email u\<rparr>
                 (Some \<lparr>secret = JWT_REFRESH_SECRET d, expiresIn = ''7d''\<rparr>))
              \<lparr>httpOnly = Some True, secure = Some False, sameSite = Some ''lax'',
               path = Some ''/'', maxAge = None, expires = None\<rparr>]"
    by (simp add: Let_def cookie_def refresh_cookie_options_def)
next
  assume "controller_login d db loginDto res = Inr res''"
  then obtain result r where lg: "login d db loginDto res = Inr (result, r)"
    and r: "res'' = json result r"
    by (auto simp: controller_login_def split: sum.splits)
  from login_Inr[OF lg] r
  show "\<exists>u. findByEmail d db (dto_email loginDto) = Some u \<and>
        cookie_headers res'' = cookie_headers res @
           [SetCookie ''refresh_token''
              (sign d \<lparr>sub = entity_id u, payload_email = entity_email u\<rparr>
                 (Some \<lparr>secret = JWT_REFRESH_SECRET d, expiresIn = ''7d''\<rparr>))
              \<lparr>httpOnly = Some True, secure = Some False, sameSite = Some ''lax'',
               path = Some ''/'', maxAge = None, expires = None\<rparr>]"
    by (auto simp: cookie_def refresh_cookie_options_def)
qed

lemmas example_defs = example_deps_def new_response_def secret1_def stored_alice_def
  controller_register_def controller_login_def controller_refresh_def controller_logout_def
  promise_properties_def
  register_def login_def refresh_def logout_service_def cookie_def clearCookie_def json_def
  refresh_cookie_options_def token_and_user_def rest_without_def own_properties_def

theorem refresh_cookie_witness:
  "controller_register example_deps [] secret1 new_response =
     Inr (\<lparr>cookie_headers =
             [SetCookie ''refresh_token'' ''refresh:a@b.com''
                \<lparr>httpOnly = Some True, secure = Some False, sameSite = Some ''lax'',
                 path = Some ''/'', maxAge = None, expires = None\<rparr>],
           json_body = Some [(''access_token'', JString ''access:a@b.com''),
              (''user'', JObject [(''id'', JNumber 1), (''email'', JString ''a@b.com''),
                                  (''createdAt'', JDate 0)])]\<rparr>,
          [stored_alice])
   \<and> controller_login example_deps [stored_alice] secret1 new_response =
     Inr \<lparr>cookie_headers =
             [SetCookie ''refresh_token'' ''refresh:a@b.com''
                \<lparr>httpOnly = Some True, secure = Some False, sameSite = Some ''lax'',
                 path = Some ''/'', maxAge = None, expires = None\<rparr>],
           json_body = Some [(''access_token'', JString ''access:a@b.com''),
              (''user'', JObject [(''id'', JNumber 1), (''email'', JString ''a@b.com''),
                                  (''createdAt'', JDate 0)])]\<rparr>
   \<and> sign example_deps \<lparr>sub = 1, payload_email = ''a@b.com''\<rparr>
        (Some \<lparr>secret = JWT_REFRESH_SECRET example_deps, expiresIn = ''7d''\<rparr>)
       = ''refresh:a@b.com''"
proof -
  have reg: "controller_register example_deps [] secret1 new_response =
     Inr (\<lparr>cookie_headers =
             [SetCookie ''refresh_token'' ''refresh:a@b.com''
                \<lparr>httpOnly = Some True, secure = Some False, sameSite = Some ''lax'',
                 path = Some ''/'', maxAge = None, expires = None\<rparr>],
           json_body = Some [(''access_token'', JString ''access:a@b.com''),
              (''user'', JObject [(''id'', JNumber 1), (''email'', JString ''a@b.com''),
                                  (''createdAt'', JDate 0)])]\<rparr>,
          [stored_alice])"
    by (simp add: example_defs Let_def)
  have lg: "controller_login example_deps [stored_alice] secret1 new_response =
     Inr \<lparr>cookie_headers =
             [SetCookie ''refresh_token'' ''refresh:a@b.com''
                \<lparr>httpOnly = Some True, secure = Some False, sameSite = Some ''lax'',
                 path = Some ''/'', maxAge = None, expires = None\<rparr>],
           json_body = Some [(''access_token'', JString ''access:a@b.com''),
              (''user'', JObject [(''id'', JNumber 1), (''email'', JString ''a@b.com''),
                                  (''createdAt'', JDate 0)])]\<rparr>"
    by (simp add: example_defs Let_def)
  have sg: "sign example_deps \<lparr>sub = 1, payload_email = ''a@b.com''\<rparr>
        (Some \<lparr>secret = JWT_REFRESH_SECRET example_deps, expiresIn = ''7d''\<rparr>)
       = ''refresh:a@b.com''"
    by (simp add: example_deps_def)
  from register_and_login_set_refresh_cookie[where d = example_deps and db = "[]"
      and registerDto = secret1 and res = new_response, THEN conjunct1, rule_format, OF reg]
    reg lg sg
  show ?thesis by simp
qed


lemma names_of_token_and_user:
  "names_of (token_and_user tok u) = ''access_token'' # ''user'' # names_of u"
  by (simp add: token_and_user_def)

text \<open>
  Claim C10. The body of a successful register or login is the access token and the
  user's \<^verbatim>\<open>id\<close>, \<^verbatim>\<open>email\<close> and \<^verbatim>\<open>createdAt\<close>; the body of a successful refresh is the
  access token and the user's \<^verbatim>\<open>id\<close> and \<^verbatim>\<open>email\<close>; the body of logout is the empty
  object, since the controller sends the service's promise and not its message.
  None of them has a property named \<^verbatim>\<open>password\<close> at any depth, and none is built from
  the entity's \<^verbatim>\<open>password\<close> field. A failing call throws an exception with a fixed
  message.
\<close>

theorem responses_carry_no_password:
  "(controller_register d db registerDto res = Inr (res1, db') \<longrightarrow>
      (let u = fst (create d db (dto_email registerDto)
                      (bcrypt_hash d (dto_password registerDto) 10))
       in json_body res1 =
            Some (token_and_user (sign d \<lparr>sub = entity_id u, payload_email = entity_email u\<rparr> None)
                    [(''id'', JNumber (entity_id u)), (''email'', JString (entity_email u)),
                     (''createdAt'', JDate (createdAt u))]))
      \<and> (\<exists>body. json_body res1 = Some body \<and> ''password'' \<notin> set (names_of body)))
   \<and> (controller_login d db loginDto res = Inr res2 \<longrightarrow>
      (\<exists>u. findByEmail d db (dto_email loginDto) = Some u \<and>
        json_body res2 =
            Some (token_and_user (sign d \<lparr>sub = entity_id u, payload_email = entity_email u\<rparr> None)
                    [(''id'', JNumber (entity_id u)), (''email'', JString (entity_email u)),
                     (''createdAt'', JDate (createdAt u))]))
      \<and> (\<exists>body. json_body res2 = Some body \<and> ''password'' \<notin> set (names_of body)))
   \<and> (controller_refresh d db ck res = Inr res3 \<longrightarrow>
      (\<exists>(p::jwt_payload) u. findById d db (sub p) = Some u \<and> json_body res3 =
            Some (token_and_user (sign d \<lparr>sub = entity_id u, payload_email = entity_email u\<rparr> None)
                    [(''id'', JNumber (entity_id u)), (''email'', JString (entity_email u))]))
      \<and> (\<exists>body. json_body res3 = Some body \<and> ''password'' \<notin> set (names_of body)))
   \<and> json_body (controller_logout res) = Some []
   \<and> fst (logout_service res) = [(''message'', JString ''Logged out successfully'')]
   \<and> (controller_register d db registerDto res = Inl exn1 \<longrightarrow>
        exn1 = ConflictException ''Email already exists'')
   \<and> (controller_login d db loginDto res = Inl exn2 \<longrightarrow>
        exn2 = UnauthorizedException ''Invalid credentials'')
   \<and> (controller_refresh d db ck res = Inl exn3 \<longrightarrow>
        exn3 = UnauthorizedException ''No refresh token provided'' \<or>
        exn3 = UnauthorizedException ''Invalid refresh token'')"
proof (intro conjI impI)
  assume "controller_register d db registerDto res = Inr (res1, db')"
  then obtain result r where reg: "register d db registerDto res = Inr (result, r, db')"
    and r: "res1 = json result r"
    by (auto simp: controller_register_def split: sum.splits)
  from register_Inr[OF reg] r
  show body: "let u = fst (create d db (dto_email registerDto)
                      (bcrypt_hash d (dto_password registerDto) 10))
       in json_body res1 =
            Some (token_and_user (sign d \<lparr>sub = entity_id u, payload_email = entity_email u\<rparr> None)
                    [(''id'', JNumber (entity_id u)), (''email'', JString (entity_email u)),
                     (''createdAt'', JDate (createdAt u))])"
    by (simp add: Let_def userWithoutPassword)
  then show "\<exists>body. json_body res1 = Some body \<and> ''password'' \<notin> set (names_of body)"
    by (simp add: Let_def names_of_token_and_user)
next
  assume "controller_login d db loginDto res = Inr res2"
  then obtain result r where lg: "login d db loginDto res = Inr (result, r)"
    and r: "res2 = json result r"
    by (auto simp: controller_login_def split: sum.splits)
  from login_Inr[OF lg] r
  show body: "\<exists>u. findByEmail d db (dto_email loginDto) = Some u \<and>
        json_body res2 =
            Some (token_and_user (sign d \<lparr>sub = entity_id u, payload_email = entity_email u\<rparr> None)
                    [(''id'', JNumber (entity_id u)), (''email'', JString (entity_email u)),
                     (''createdAt'', JDate (createdAt u))])"
    by (auto simp: userWithoutPassword)
  then show "\<exists>body. json_body res2 = Some body \<and> ''password'' \<notin> set (names_of body)"
    by (auto simp: names_of_token_and_user)
next
  assume "controller_refresh d db ck res = Inr res3"
  then obtain result where rf: "refresh d db ck = Inr result"
    and r: "res3 = json result res"
    by (auto simp: controller_refresh_def split: sum.splits)
  from refresh_Inr[OF rf] obtain t p u where "ck = Some t"
    and "verifyAsync d t (JWT_REFRESH_SECRET d) = Some p"
    and "findById d db (sub p) = Some u"
    and "result = token_and_user (sign d \<lparr>sub = entity_id u, payload_email = entity_email u\<rparr> None)
                 [(''id'', JNumber (entity_id u)), (''email'', JString (entity_email u))]"
    by blast
  with r have "findById d db (sub p) = Some u \<and> json_body res3 =
            Some (token_and_user (sign d \<lparr>sub = entity_id u, payload_email = entity_email u\<rparr> None)
                    [(''id'', JNumber (entity_id u)), (''email'', JString (entity_email u))])"
    by simp
  then
  show body: "\<exists>(p::jwt_payload) u. findById d db (sub p) = Some u \<and> json_body res3 =
            Some (token_and_user (sign d \<lparr>sub = entity_id u, payload_email = entity_email u\<rparr> None)
                    [(''id'', JNumber (entity_id u)), (''email'', JString (entity_email u))])"
    by blast
  then show "\<exists>body. json_body res3 = Some body \<and> ''password'' \<notin> set (names_of body)"
    by (auto simp: names_of_token_and_user)
next
  show "json_body (controller_logout res) = Some []"
    by (simp add: controller_logout_def logout_service_def promise_properties_def)
next
  show "fst (logout_service res) = [(''message'', JString ''Logged out successfully'')]"
    by (simp add: logout_service_def)
next
  assume "controller_register d db registerDto res = Inl exn1"
  then show "exn1 = ConflictException ''Email already exists''"
    by (auto simp: controller_register_def register_def Let_def
        split: sum.splits option.splits prod.splits)
next
  assume "controller_login d db loginDto res = Inl exn2"
  then show "exn2 = UnauthorizedException ''Invalid credentials''"
    by (auto simp: controller_login_def login_def Let_def
        split: sum.splits option.splits if_splits)
next
  assume "controller_refresh d db ck res = Inl exn3"
  then show "exn3 = UnauthorizedException ''No refresh token provided'' \<or>
        exn3 = UnauthorizedException ''Invalid refresh token''"
    by (auto simp: controller_refresh_def refresh_def Let_def
        split: sum.splits option.splits if_splits)
qed

theorem no_password_witness:
  "controller_refresh example_deps [stored_alice] (Some ''refresh:a@b.com'') new_response =
     Inr \<lparr>cookie_headers = [],
          json_body = Some [(''access_token'', JString ''access:a@b.com''),
              (''user'', JObject [(''id'', JNumber 1), (''email'', JString ''a@b.com'')])]\<rparr>
   \<and> password stored_alice = ''hash:secret1''
   \<and> names_of [(''access_token'', JString ''access:a@b.com''),
              (''user'', JObject [(''id'', JNumber 1), (''email'', JString ''a@b.com'')])]
      = [''access_token'', ''user'', ''id'', ''email'']
   \<and> controller_register example_deps [] secret1 new_response =
     Inr (\<lparr>cookie_headers =
             [SetCookie ''refresh_token'' ''refresh:a@b.com''
                \<lparr>httpOnly = Some True, secure = Some False, sameSite = Some ''lax'',
                 path = Some ''/'', maxAge = None, expires = None\<rparr>],
           json_body = Some [(''access_token'', JString ''access:a@b.com''),
              (''user'', JObject [(''id'', JNumber 1), (''email'', JString ''a@b.com''),
                                  (''createdAt'', JDate 0)])]\<rparr>,
          [stored_alice])"
proof -
  have rf: "controller_refresh example_deps [stored_alice] (Some ''refresh:a@b.com'') new_response =
     Inr \<lparr>cookie_headers = [],
          json_body = Some [(''access_token'', JString ''access:a@b.com''),
              (''user'', JObject [(''id'', JNumber 1), (''email'', JString ''a@b.com'')])]\<rparr>"
    by (simp add: example_defs Let_def)
  have reg: "controller_register example_deps [] secret1 new_response =
     Inr (\<lparr>cookie_headers =
             [SetCookie ''refresh_token'' ''refresh:a@b.com''
                \<lparr>httpOnly = Some True, secure = Some False, sameSite = Some ''lax'',
                 path = Some ''/'', maxAge = None, expires = None\<rparr>],
           json_body = Some [(''access_token'', JString ''access:a@b.com''),
              (''user'', JObject [(''id'', JNumber 1), (''email'', JString ''a@b.com''),
                                  (''createdAt'', JDate 0)])]\<rparr>,
          [stored_alice])"
    by (simp add: example_defs Let_def)
  from responses_carry_no_password[where d = example_deps and db = "[stored_alice]"
      and ck = "Some ''refresh:a@b.com''" and res = new_response,
      THEN conjunct2, THEN conjunct2, THEN conjunct1, rule_format, OF rf]
    rf reg
  show ?thesis by (simp add: stored_alice_def)
qed

end
